theory Spec2Isabelle
  imports Complex_Main
begin

section \<open>Errors and results\<close>

text \<open>
  The Python source raises exceptions; every raise is a value here. A forward pass or a
  constructor returns \<open>Inl e\<close> where the interpreter would raise \<open>e\<close> and \<open>Inr v\<close>
  where it would return \<open>v\<close>.
\<close>

datatype error = RuntimeError | IndexError | ValueError | ZeroDivisionError | TypeError

definition bind_res :: "error + 'a \<Rightarrow> ('a \<Rightarrow> error + 'b) \<Rightarrow> error + 'b" where
  "bind_res m f = (case m of Inl e \<Rightarrow> Inl e | Inr v \<Rightarrow> f v)"

section \<open>Tensor shapes\<close>

text \<open>
  The shape of a tensor is the list of its axis sizes (\<open>x.size()\<close>). The shape semantics
  below gives, for each tensor operation the source calls, the shape of the result or the
  exception the library raises, as the library documents it.
\<close>

type_synonym shape = "nat list"

definition numel :: "shape \<Rightarrow> nat" where
  "numel s = prod_list s"

text \<open>\<open>x.squeeze()\<close> with no axis given drops every axis of size one.\<close>

definition squeeze :: "shape \<Rightarrow> shape" where
  "squeeze s = filter (\<lambda>d. d \<noteq> 1) s"

text \<open>
  \<open>x.unsqueeze(d)\<close> for a non-negative \<open>d\<close> inserts an axis of size one at position
  \<open>d\<close>, which must not exceed the rank; \<open>x.unsqueeze(-2)\<close> inserts it before the last
  axis, and needs a last axis.
\<close>

definition unsqueeze :: "nat \<Rightarrow> shape \<Rightarrow> error + shape" where
  "unsqueeze d s = (if d \<le> length s then Inr (take d s @ [1] @ drop d s) else Inl IndexError)"

definition unsqueeze_m2 :: "shape \<Rightarrow> error + shape" where
  "unsqueeze_m2 s = (if s = [] then Inl IndexError else Inr (butlast s @ [1, last s]))"

text \<open>\<open>x.permute(0, 2, 1)\<close> and \<open>x.permute(0, 2, 1, 3)\<close>: the rank must be the number of
  axes named.\<close>

definition permute_021 :: "shape \<Rightarrow> error + shape" where
  "permute_021 s = (case s of [a, b, c] \<Rightarrow> Inr [a, c, b] | _ \<Rightarrow> Inl RuntimeError)"

definition permute_0213 :: "shape \<Rightarrow> error + shape" where
  "permute_0213 s = (case s of [a, b, c, d] \<Rightarrow> Inr [a, c, b, d] | _ \<Rightarrow> Inl RuntimeError)"

text \<open>
  \<open>torch.nn.functional.unfold(x, kernel_size=(kh, kw), stride=st)\<close> with dilation 1 and no
  padding: a batched input \<open>(N, C, H, W)\<close> gives \<open>(N, C * kh * kw, nh * nw)\<close> where
  \<open>nh = floor((H - kh) / st) + 1\<close> and likewise \<open>nw\<close>; an unbatched input \<open>(C, H, W)\<close>
  gives the same without the leading axis. A stride or kernel size that is not positive,
  a kernel that does not fit, an input without channels and any other rank are errors;
  below three axes the library fails while it reads the sizes.
\<close>

definition unfold_blocks :: "nat \<Rightarrow> nat \<Rightarrow> int \<Rightarrow> int \<Rightarrow> int \<Rightarrow> error + nat" where
  "unfold_blocks h w kh kw st =
     (if st \<le> 0 \<or> kh \<le> 0 \<or> kw \<le> 0 then Inl RuntimeError
      else if int h < kh \<or> int w < kw then Inl RuntimeError
      else Inr (nat (((int h - kh) div st + 1) * ((int w - kw) div st + 1))))"

definition unfold :: "shape \<Rightarrow> int \<times> int \<Rightarrow> int \<Rightarrow> error + shape" where
  "unfold s kernel_size stride =
     (case s of
        [n, c, h, w] \<Rightarrow>
          if c = 0 then Inl RuntimeError
          else
            bind_res (unfold_blocks h w (fst kernel_size) (snd kernel_size) stride)
              (\<lambda>l. Inr [n, c * nat (fst kernel_size) * nat (snd kernel_size), l])
      | [c, h, w] \<Rightarrow>
          if c = 0 then Inl RuntimeError
          else
            bind_res (unfold_blocks h w (fst kernel_size) (snd kernel_size) stride)
              (\<lambda>l. Inr [c * nat (fst kernel_size) * nat (snd kernel_size), l])
      | _ \<Rightarrow> if length s < 3 then Inl IndexError else Inl RuntimeError)"

section \<open>Signal segment definition\<close>

record SignalSegmentDefinition =
  ssd_kernel_size :: "int \<times> int"
  ssd_stride :: int

definition SignalSegmentDefinition_forward :: "SignalSegmentDefinition \<Rightarrow> shape \<Rightarrow> error + shape" where
  "SignalSegmentDefinition_forward m x =
     bind_res (unfold x (ssd_kernel_size m) (ssd_stride m)) (\<lambda>b.
     bind_res (permute_021 b) (\<lambda>b.
     unsqueeze_m2 b))"

text \<open>
  The constructor of the representation computes the stride as
  \<open>int(segment_size - segment_size * overlapping_rate)\<close>, in double-precision arithmetic;
  \<open>int(v)\<close> truncates towards zero. The module keeps the integer. The model takes that
  integer as the constructor's argument, and computes it itself only where double
  arithmetic is exact: for a rate \<open>n / 2 ^ k\<close> such that the rate, the product and the
  difference are all of the form \<open>m / 2 ^ k\<close> with \<open>|m| < 2 ^ 53\<close> (and \<open>k\<close> within the
  exponent range), every operation returns the exact result. For any other rate
  \<open>overlapping_of\<close> returns \<open>None\<close>: the model does not say what the interpreter
  computes.
\<close>

definition py_int :: "real \<Rightarrow> int" where
  "py_int v = (if 0 \<le> v then \<lfloor>v\<rfloor> else \<lceil>v\<rceil>)"

definition exact_double :: "int \<Rightarrow> nat \<Rightarrow> bool" where
  "exact_double m k = (\<bar>m\<bar> < 2 ^ 53 \<and> k \<le> 1000)"

definition overlapping_of :: "int \<Rightarrow> int \<Rightarrow> nat \<Rightarrow> int option" where
  "overlapping_of segment_size n k =
     (if exact_double segment_size 0 \<and> exact_double n k \<and> exact_double (segment_size * n) k \<and>
         exact_double (segment_size * 2 ^ k - segment_size * n) k
      then Some (py_int (of_int segment_size - of_int segment_size * (of_int n / 2 ^ k)))
      else None)"

definition segment_of :: "int \<Rightarrow> int \<Rightarrow> SignalSegmentDefinition" where
  "segment_of segment_size overlapping =
     \<lparr>ssd_kernel_size = (1, segment_size), ssd_stride = overlapping\<rparr>"

text \<open>The stride as the specification words it: \<open>W - round(W * r)\<close>.\<close>

definition spec_stride :: "int \<Rightarrow> real \<Rightarrow> int" where
  "spec_stride w r = w - round (of_int w * r)"

section \<open>Layers and their shape semantics\<close>

text \<open>
  The library layers the source instantiates, with the hyperparameters that decide shapes:
  \<open>Conv1d\<close> and \<open>Conv2d\<close> carry input channels, output channels, kernel size, stride
  and padding (square kernels, dilation 1, one group); the pooling layers carry kernel
  size, stride and padding; \<open>Linear\<close> carries input and output features. A batch
  normalization carries its number of features and the module's \<open>training\<close> flag, which
  every constructor sets and only \<open>eval()\<close> clears: in training mode the layer computes
  the statistics of the batch and refuses an input with a single value per channel.
\<close>

datatype layer =
    Conv1d nat nat nat nat nat
  | BatchNorm1d nat bool
  | MaxPool1d nat nat nat
  | Conv2d nat nat nat nat nat
  | BatchNorm2d nat bool
  | MaxPool2d nat nat nat
  | Linear nat nat
  | GELU
  | ReLU
  | Sigmoid

text \<open>
  The length of a convolved or pooled axis: \<open>floor((l + 2 * p - k) / s) + 1\<close>; the library
  raises when the padded input is shorter than the kernel. A convolution also needs the
  channel count of its weight, and a weight with at least one output channel.
\<close>

definition conv_out :: "nat \<Rightarrow> nat \<Rightarrow> nat \<Rightarrow> nat \<Rightarrow> error + nat" where
  "conv_out l k s p =
     (if k = 0 \<or> s = 0 then Inl RuntimeError
      else if l + 2 * p < k then Inl RuntimeError
      else Inr ((l + 2 * p - k) div s + 1))"

definition pool_out :: "nat \<Rightarrow> nat \<Rightarrow> nat \<Rightarrow> nat \<Rightarrow> error + nat" where
  "pool_out l k s p =
     (if k div 2 < p then Inl RuntimeError else conv_out l k s p)"

fun layer_forward :: "layer \<Rightarrow> shape \<Rightarrow> error + shape" where
  "layer_forward (Conv1d cin cout k s p) x =
     (case x of
        [n, c, l] \<Rightarrow>
          if c = cin \<and> 0 < cout then bind_res (conv_out l k s p) (\<lambda>l'. Inr [n, cout, l'])
          else Inl RuntimeError
      | [c, l] \<Rightarrow>
          if c = cin \<and> 0 < cout then bind_res (conv_out l k s p) (\<lambda>l'. Inr [cout, l'])
          else Inl RuntimeError
      | _ \<Rightarrow> Inl RuntimeError)"
| "layer_forward (BatchNorm1d nf training) x =
     (case x of
        [n, c, l] \<Rightarrow>
          if training \<and> n * l = 1 then Inl ValueError
          else if c = nf then Inr x else Inl RuntimeError
      | [n, c] \<Rightarrow>
          if training \<and> n = 1 then Inl ValueError
          else if c = nf then Inr x else Inl RuntimeError
      | _ \<Rightarrow> Inl ValueError)"
| "layer_forward (MaxPool1d k s p) x =
     (case x of
        [n, c, l] \<Rightarrow> bind_res (pool_out l k s p) (\<lambda>l'. Inr [n, c, l'])
      | [c, l] \<Rightarrow> bind_res (pool_out l k s p) (\<lambda>l'. Inr [c, l'])
      | _ \<Rightarrow> Inl RuntimeError)"
| "layer_forward (Conv2d cin cout k s p) x =
     (case x of
        [n, c, h, w] \<Rightarrow>
          if c = cin \<and> 0 < cout then
            bind_res (conv_out h k s p) (\<lambda>h'.
            bind_res (conv_out w k s p) (\<lambda>w'. Inr [n, cout, h', w']))
          else Inl RuntimeError
      | [c, h, w] \<Rightarrow>
          if c = cin \<and> 0 < cout then
            bind_res (conv_out h k s p) (\<lambda>h'.
            bind_res (conv_out w k s p) (\<lambda>w'. Inr [cout, h', w']))
          else Inl RuntimeError
      | _ \<Rightarrow> Inl RuntimeError)"
| "layer_forward (BatchNorm2d nf training) x =
     (case x of
        [n, c, h, w] \<Rightarrow>
          if training \<and> n * h * w = 1 then Inl ValueError
          else if c = nf then Inr x else Inl RuntimeError
      | _ \<Rightarrow> Inl ValueError)"
| "layer_forward (MaxPool2d k s p) x =
     (case x of
        [n, c, h, w] \<Rightarrow>
          bind_res (pool_out h k s p) (\<lambda>h'.
          bind_res (pool_out w k s p) (\<lambda>w'. Inr [n, c, h', w']))
      | [c, h, w] \<Rightarrow>
          bind_res (pool_out h k s p) (\<lambda>h'.
          bind_res (pool_out w k s p) (\<lambda>w'. Inr [c, h', w']))
      | _ \<Rightarrow> Inl RuntimeError)"
| "layer_forward (Linear fin fout) x =
     (if x \<noteq> [] \<and> last x = fin then Inr (butlast x @ [fout]) else Inl RuntimeError)"
| "layer_forward GELU x = Inr x"
| "layer_forward ReLU x = Inr x"
| "layer_forward Sigmoid x = Inr x"

text \<open>\<open>nn.Sequential\<close>: the layers in order, stopping at the first exception.\<close>

fun Sequential_forward :: "layer list \<Rightarrow> shape \<Rightarrow> error + shape" where
  "Sequential_forward [] x = Inr x"
| "Sequential_forward (l # ls) x = bind_res (layer_forward l x) (Sequential_forward ls)"

text \<open>
  Broadcasting aligns two shapes at their last axes; two sizes are compatible when they
  are equal or one of them is one. \<open>y.expand_as(x)\<close> needs \<open>y\<close> to broadcast to exactly
  the shape of \<open>x\<close>, and so does the in-place \<open>x += y\<close>.
\<close>

fun broadcast_rev :: "nat list \<Rightarrow> nat list \<Rightarrow> error + nat list" where
  "broadcast_rev [] ys = Inr ys"
| "broadcast_rev (x # xs) [] = Inr (x # xs)"
| "broadcast_rev (x # xs) (y # ys) =
     (if x = y \<or> y = 1 then bind_res (broadcast_rev xs ys) (\<lambda>r. Inr (x # r))
      else if x = 1 then bind_res (broadcast_rev xs ys) (\<lambda>r. Inr (y # r))
      else Inl RuntimeError)"

definition broadcast :: "shape \<Rightarrow> shape \<Rightarrow> error + shape" where
  "broadcast a b = bind_res (broadcast_rev (rev a) (rev b)) (\<lambda>r. Inr (rev r))"

definition expand_as :: "shape \<Rightarrow> shape \<Rightarrow> error + shape" where
  "expand_as y x = (if broadcast y x = Inr x then Inr x else Inl RuntimeError)"

text \<open>Adaptive average pooling to one cell per channel, on a batched or an unbatched
  input.\<close>

definition AdaptiveAvgPool2d_1 :: "shape \<Rightarrow> error + shape" where
  "AdaptiveAvgPool2d_1 x =
     (case x of
        [n, c, h, w] \<Rightarrow> Inr [n, c, 1, 1]
      | [c, h, w] \<Rightarrow> Inr [c, 1, 1]
      | _ \<Rightarrow> Inl RuntimeError)"

definition AdaptiveAvgPool1d_1 :: "shape \<Rightarrow> error + shape" where
  "AdaptiveAvgPool1d_1 x =
     (case x of
        [n, c, l] \<Rightarrow> Inr [n, c, 1]
      | [c, l] \<Rightarrow> Inr [c, 1]
      | _ \<Rightarrow> Inl RuntimeError)"

text \<open>\<open>x.view(s)\<close> with every size given keeps the number of elements.\<close>

definition view :: "shape \<Rightarrow> shape \<Rightarrow> error + shape" where
  "view x s = (if numel x = numel s then Inr s else Inl RuntimeError)"

section \<open>Global node attention (shapes)\<close>

text \<open>
  The convolution constructor allocates a weight of shape \<open>(out, in, k, k)\<close>; a negative
  size is refused by the allocator. There is no check that the bottleneck width is an
  exact quotient.
\<close>

definition Conv2d_init :: "int \<Rightarrow> int \<Rightarrow> nat \<Rightarrow> error + layer" where
  "Conv2d_init cin cout k =
     (if cin < 0 \<or> cout < 0 then Inl RuntimeError
      else Inr (Conv2d (nat cin) (nat cout) k 1 0))"

record GNA =
  gna_fc :: "layer list"

definition GNA_init :: "int \<Rightarrow> int \<Rightarrow> error + GNA" where
  "GNA_init channel reduction =
     (if reduction = 0 then Inl ZeroDivisionError
      else
        bind_res (Conv2d_init channel (channel div reduction) 1) (\<lambda>squeeze_conv.
        bind_res (Conv2d_init (channel div reduction) channel 1) (\<lambda>excite_conv.
        Inr \<lparr>gna_fc = [squeeze_conv, GELU, excite_conv, Sigmoid]\<rparr>)))"

definition GNA_forward :: "GNA \<Rightarrow> shape \<Rightarrow> error + shape" where
  "GNA_forward g x =
     (case x of
        [b, c, h, w] \<Rightarrow>
          bind_res (AdaptiveAvgPool2d_1 x) (\<lambda>y.
          bind_res (Sequential_forward (gna_fc g) y) (\<lambda>y.
          bind_res (expand_as y x) (\<lambda>y.
          broadcast x y)))
      | _ \<Rightarrow> Inl ValueError)"

section \<open>Residual squeeze-and-excitation block (shapes)\<close>

record ResLayer =
  rl_fc :: "layer list"

definition ResLayer_init :: "nat \<Rightarrow> nat \<Rightarrow> error + ResLayer" where
  "ResLayer_init channel reduction =
     (if reduction = 0 then Inl ZeroDivisionError
      else Inr \<lparr>rl_fc = [Linear channel (channel div reduction), GELU,
                          Linear (channel div reduction) channel, Sigmoid]\<rparr>)"

definition ResLayer_forward :: "ResLayer \<Rightarrow> shape \<Rightarrow> error + shape" where
  "ResLayer_forward m x =
     (case x of
        [b, c, l] \<Rightarrow>
          bind_res (AdaptiveAvgPool1d_1 x) (\<lambda>y.
          bind_res (view y [b, c]) (\<lambda>y.
          bind_res (Sequential_forward (rl_fc m) y) (\<lambda>y.
          bind_res (view y [b, c, 1]) (\<lambda>y.
          bind_res (expand_as y x) (\<lambda>y.
          broadcast x y)))))
      | _ \<Rightarrow> Inl ValueError)"

text \<open>
  \<open>ResBasicBlock.__init__\<close> passes its \<open>stride\<close> argument as the third positional argument
  of \<open>nn.Conv1d\<close>, which is the kernel size; the stride and the padding of that convolution
  keep their defaults 1 and 0. The second convolution has kernel size 1.
\<close>

record ResBasicBlock =
  rb_conv1 :: layer
  rb_bn1 :: layer
  rb_relu :: layer
  rb_conv2 :: layer
  rb_bn2 :: layer
  rb_reslayer :: ResLayer
  rb_downsample :: "layer list option"
  rb_stride :: nat

definition ResBasicBlock_init ::
  "nat \<Rightarrow> nat \<Rightarrow> nat \<Rightarrow> layer list option \<Rightarrow> nat \<Rightarrow> error + ResBasicBlock" where
  "ResBasicBlock_init inplanes planes stride downsample reduction =
     bind_res (ResLayer_init planes reduction) (\<lambda>reslayer.
     Inr \<lparr>rb_conv1 = Conv1d inplanes planes stride 1 0,
          rb_bn1 = BatchNorm1d planes True,
          rb_relu = GELU,
          rb_conv2 = Conv1d planes planes 1 1 0,
          rb_bn2 = BatchNorm1d planes True,
          rb_reslayer = reslayer,
          rb_downsample = downsample,
          rb_stride = stride\<rparr>)"

text \<open>\<open>out += residual\<close> is in place: the residual must broadcast to the shape of \<open>out\<close>.\<close>

definition iadd :: "shape \<Rightarrow> shape \<Rightarrow> error + shape" where
  "iadd out residual = (if broadcast out residual = Inr out then Inr out else Inl RuntimeError)"

definition ResBasicBlock_forward :: "ResBasicBlock \<Rightarrow> shape \<Rightarrow> error + shape" where
  "ResBasicBlock_forward m x =
     bind_res (layer_forward (rb_conv1 m) x) (\<lambda>out.
     bind_res (layer_forward (rb_bn1 m) out) (\<lambda>out.
     bind_res (layer_forward (rb_relu m) out) (\<lambda>out.
     bind_res (layer_forward (rb_conv2 m) out) (\<lambda>out.
     bind_res (layer_forward (rb_bn2 m) out) (\<lambda>out.
     bind_res (ResLayer_forward (rb_reslayer m) out) (\<lambda>out.
     bind_res (case rb_downsample m of
                 None \<Rightarrow> Inr x
               | Some d \<Rightarrow> Sequential_forward d x) (\<lambda>residual.
     bind_res (iadd out residual) (\<lambda>out.
     layer_forward (rb_relu m) out))))))))"

fun blocks_forward :: "ResBasicBlock list \<Rightarrow> shape \<Rightarrow> error + shape" where
  "blocks_forward [] x = Inr x"
| "blocks_forward (m # ms) x = bind_res (ResBasicBlock_forward m x) (blocks_forward ms)"

section \<open>The segment encoder (shapes)\<close>

text \<open>
  \<open>_make_layer\<close> builds the downsample branch exactly when the stride is not one or the
  channel counts differ (\<open>expansion\<close> is 1), gives it to the first block only, and appends
  \<open>blocks - 1\<close> further blocks with the default stride and no downsample. It returns the
  blocks and the updated \<open>inplanes\<close>.
\<close>

definition expansion :: nat where
  "expansion = 1"

fun more_blocks :: "nat \<Rightarrow> nat \<Rightarrow> nat \<Rightarrow> error + ResBasicBlock list" where
  "more_blocks inplanes planes 0 = Inr []"
| "more_blocks inplanes planes (Suc n) =
     bind_res (ResBasicBlock_init inplanes planes 1 None 4) (\<lambda>b.
     bind_res (more_blocks inplanes planes n) (\<lambda>bs. Inr (b # bs)))"

definition make_layer :: "nat \<Rightarrow> nat \<Rightarrow> nat \<Rightarrow> nat \<Rightarrow> error + (ResBasicBlock list \<times> nat)" where
  "make_layer inplanes planes blocks stride =
     (let downsample =
            (if stride \<noteq> 1 \<or> inplanes \<noteq> planes * expansion
             then Some [Conv1d inplanes (planes * expansion) 1 stride 0,
                        BatchNorm1d (planes * expansion) True]
             else None)
      in bind_res (ResBasicBlock_init inplanes planes stride downsample 4) (\<lambda>first.
         bind_res (more_blocks (planes * expansion) planes (blocks - 1)) (\<lambda>rest.
         Inr (first # rest, planes * expansion))))"

record SignalSegment2Vec =
  s2v_features :: "layer list"
  s2v_AFR :: "ResBasicBlock list"

definition SignalSegment2Vec_init :: "nat \<Rightarrow> error + SignalSegment2Vec" where
  "SignalSegment2Vec_init afr_reduced_cnn_size =
     bind_res (make_layer 128 afr_reduced_cnn_size 1 1) (\<lambda>(afr, inplanes).
     Inr \<lparr>s2v_features =
            [Conv1d 1 64 49 6 (49 div 2), BatchNorm1d 64 True, GELU,
             MaxPool1d 7 4 (7 div 2),
             Conv1d 64 128 7 1 (7 div 2), BatchNorm1d 128 True, GELU,
             Conv1d 128 128 7 1 (7 div 2), BatchNorm1d 128 True, GELU,
             MaxPool1d 3 4 (3 div 2)],
          s2v_AFR = afr\<rparr>)"

definition SignalSegment2Vec_forward :: "SignalSegment2Vec \<Rightarrow> shape \<Rightarrow> error + shape" where
  "SignalSegment2Vec_forward m x =
     bind_res (Sequential_forward (s2v_features m) x) (\<lambda>x.
     blocks_forward (s2v_AFR m) x)"

section \<open>Signal segment representation (shapes)\<close>

text \<open>
  \<open>x[:, idx, :]\<close> names three axes, so the tensor must have at least three; the indexed
  axis disappears. \<open>out.view(n, 1, -1)\<close> infers the last size from the number of elements.
  \<open>torch.cat(ts, dim=1)\<close> needs a non-empty list of tensors that agree on every axis but
  the second.
\<close>

definition index_axis1 :: "shape \<Rightarrow> nat \<Rightarrow> error + shape" where
  "index_axis1 x idx =
     (case x of
        a # b # c # rest \<Rightarrow> if idx < b then Inr (a # c # rest) else Inl IndexError
      | _ \<Rightarrow> Inl IndexError)"

definition view_n_1_rest :: "shape \<Rightarrow> nat \<Rightarrow> error + shape" where
  "view_n_1_rest out n =
     (if n = 0 \<or> numel out mod n \<noteq> 0 then Inl RuntimeError
      else Inr [n, 1, numel out div n])"

definition cat_dim1 :: "shape list \<Rightarrow> error + shape" where
  "cat_dim1 ts =
     (case ts of
        [] \<Rightarrow> Inl RuntimeError
      | t # rest \<Rightarrow>
          if length t < 2 then Inl IndexError
          else if \<forall>u \<in> set rest. length u = length t \<and> hd u = hd t \<and> drop 2 u = drop 2 t
          then Inr (hd t # sum_list (map (\<lambda>u. u ! 1) ts) # drop 2 t)
          else Inl RuntimeError)"

definition size_at :: "shape \<Rightarrow> nat \<Rightarrow> error + nat" where
  "size_at x i = (if i < length x then Inr (x ! i) else Inl IndexError)"

record SignalSegmentRepresentation =
  ssr_overlapping :: int
  ssr_segment :: SignalSegmentDefinition
  ssr_segment2vec :: SignalSegment2Vec
  ssr_gna :: GNA

text \<open>
  \<open>SignalSegmentRepresentation.__init__\<close>; the second argument here is the integer
  \<open>self.overlapping\<close> that the constructor computes from the overlapping rate.
\<close>

definition SignalSegmentRepresentation_init ::
  "int \<Rightarrow> int \<Rightarrow> int \<Rightarrow> error + SignalSegmentRepresentation" where
  "SignalSegmentRepresentation_init segment_size overlapping segment_num =
     bind_res (SignalSegment2Vec_init 30) (\<lambda>enc.
     bind_res (GNA_init segment_num 2) (\<lambda>g.
     Inr \<lparr>ssr_overlapping = overlapping,
          ssr_segment = segment_of segment_size overlapping,
          ssr_segment2vec = enc,
          ssr_gna = g\<rparr>))"

text \<open>The loop over \<open>range(x.size()[1])\<close>: one encoder call per index, in order, each
  result appended to \<open>signal_segments\<close>.\<close>

fun encode_segments ::
  "SignalSegment2Vec \<Rightarrow> shape \<Rightarrow> nat list \<Rightarrow> error + shape list" where
  "encode_segments enc x [] = Inr []"
| "encode_segments enc x (idx # rest) =
     bind_res (index_axis1 x idx) (\<lambda>data.
     bind_res (unsqueeze 1 data) (\<lambda>data.
     bind_res (SignalSegment2Vec_forward enc data) (\<lambda>out.
     bind_res (size_at x 0) (\<lambda>n.
     bind_res (view_n_1_rest out n) (\<lambda>out.
     bind_res (encode_segments enc x rest) (\<lambda>outs.
     Inr (out # outs)))))))"

text \<open>
  \<open>forward\<close> up to and including the call of \<open>self.gna\<close>, and then the whole of it:
  the last line applies \<open>permute(0, 2, 1, 3)\<close> to what the gate returns.
\<close>

definition SignalSegmentRepresentation_gated ::
  "SignalSegmentRepresentation \<Rightarrow> shape \<Rightarrow> error + shape" where
  "SignalSegmentRepresentation_gated m x =
     bind_res (SignalSegmentDefinition_forward (ssr_segment m) x) (\<lambda>x.
     (let x = squeeze x in
      bind_res (size_at x 1) (\<lambda>k.
      bind_res (encode_segments (ssr_segment2vec m) x [0..<k]) (\<lambda>signal_segments.
      bind_res (cat_dim1 signal_segments) (\<lambda>signal_segments.
      bind_res (unsqueeze 2 signal_segments) (\<lambda>signal_segments.
      GNA_forward (ssr_gna m) signal_segments))))))"

definition SignalSegmentRepresentation_forward ::
  "SignalSegmentRepresentation \<Rightarrow> shape \<Rightarrow> error + shape" where
  "SignalSegmentRepresentation_forward m x =
     bind_res (SignalSegmentRepresentation_gated m x) permute_0213"

text \<open>
  What the feature stack of the encoder leaves of a segment of length \<open>w\<close>: the strided
  convolution (kernel 49, stride 6, padding 24), the first pooling (kernel 7, stride 4,
  padding 3), two length-preserving convolutions and the second pooling (kernel 3,
  stride 4, padding 1).
\<close>

definition encoded_length :: "nat \<Rightarrow> nat" where
  "encoded_length w = ((((w - 1) div 6 + 1) - 1) div 4 + 1 - 1) div 4 + 1"

text \<open>
  The one block \<open>_make_layer(ResBasicBlock, planes, 1)\<close> builds when \<open>inplanes\<close> is 128, as
  it is in \<open>SignalSegment2Vec.__init__\<close>.
\<close>

definition afr_block :: "nat \<Rightarrow> ResBasicBlock" where
  "afr_block planes =
     \<lparr>rb_conv1 = Conv1d 128 planes 1 1 0, rb_bn1 = BatchNorm1d planes True, rb_relu = GELU,
      rb_conv2 = Conv1d planes planes 1 1 0, rb_bn2 = BatchNorm1d planes True,
      rb_reslayer = \<lparr>rl_fc = [Linear planes (planes div 4), GELU,
                               Linear (planes div 4) planes, Sigmoid]\<rparr>,
      rb_downsample = (if 128 \<noteq> planes
                       then Some [Conv1d 128 planes 1 1 0, BatchNorm1d planes True] else None),
      rb_stride = 1\<rparr>"

section \<open>The residual network (shapes)\<close>

record BasicBlock =
  bb_conv1 :: layer
  bb_bn1 :: layer
  bb_relu :: layer
  bb_conv2 :: layer
  bb_bn2 :: layer
  bb_downsample :: "layer list option"
  bb_stride :: nat

definition BasicBlock_init :: "nat \<Rightarrow> nat \<Rightarrow> nat \<Rightarrow> layer list option \<Rightarrow> BasicBlock" where
  "BasicBlock_init in_planes planes stride downsample =
     \<lparr>bb_conv1 = Conv2d in_planes planes 3 stride 1,
      bb_bn1 = BatchNorm2d planes True,
      bb_relu = ReLU,
      bb_conv2 = Conv2d planes planes 3 1 1,
      bb_bn2 = BatchNorm2d planes True,
      bb_downsample = downsample,
      bb_stride = stride\<rparr>"

text \<open>\<open>out = out + identity\<close> is out of place: the two shapes broadcast together.\<close>

definition BasicBlock_forward :: "BasicBlock \<Rightarrow> shape \<Rightarrow> error + shape" where
  "BasicBlock_forward m x =
     bind_res (layer_forward (bb_conv1 m) x) (\<lambda>out.
     bind_res (layer_forward (bb_bn1 m) out) (\<lambda>out.
     bind_res (layer_forward (bb_relu m) out) (\<lambda>out.
     bind_res (layer_forward (bb_conv2 m) out) (\<lambda>out.
     bind_res (layer_forward (bb_bn2 m) out) (\<lambda>out.
     bind_res (case bb_downsample m of
                 None \<Rightarrow> Inr x
               | Some d \<Rightarrow> Sequential_forward d x) (\<lambda>identity.
     bind_res (broadcast out identity) (\<lambda>out.
     layer_forward (bb_relu m) out)))))))"

fun stage_forward :: "BasicBlock list \<Rightarrow> shape \<Rightarrow> error + shape" where
  "stage_forward [] x = Inr x"
| "stage_forward (m # ms) x = bind_res (BasicBlock_forward m x) (stage_forward ms)"

fun more_BasicBlocks :: "nat \<Rightarrow> nat \<Rightarrow> BasicBlock list" where
  "more_BasicBlocks planes 0 = []"
| "more_BasicBlocks planes (Suc n) = BasicBlock_init planes planes 1 None # more_BasicBlocks planes n"

definition ResNet_make_layer :: "nat \<Rightarrow> nat \<Rightarrow> nat \<Rightarrow> nat \<Rightarrow> BasicBlock list \<times> nat" where
  "ResNet_make_layer in_planes planes blocks stride =
     (let downsample =
            (if stride \<noteq> 1 \<or> in_planes \<noteq> planes
             then Some [Conv2d in_planes planes 1 stride 0, BatchNorm2d planes True]
             else None)
      in (BasicBlock_init in_planes planes stride downsample # more_BasicBlocks planes (blocks - 1),
          planes))"

record ResNet =
  rn_conv1 :: layer
  rn_bn1 :: layer
  rn_relu :: layer
  rn_maxpool :: layer
  rn_layer1 :: "BasicBlock list"
  rn_layer2 :: "BasicBlock list"
  rn_layer3 :: "BasicBlock list"
  rn_layer4 :: "BasicBlock list"
  rn_fc1 :: "layer list"
  rn_fc2 :: "layer list"

text \<open>
  \<open>ResNet.__init__(block, layers, channels, num_classes)\<close> with \<open>block = BasicBlock\<close>;
  \<open>layers[0]\<close> to \<open>layers[3]\<close> must exist. The running \<open>self.in_planes\<close> is threaded
  through the four calls of \<open>_make_layer\<close>.
\<close>

definition ResNet_init :: "nat list \<Rightarrow> nat \<Rightarrow> nat \<Rightarrow> error + ResNet" where
  "ResNet_init layers channels num_classes =
     (if length layers < 4 then Inl IndexError
      else
        (let in_planes = 64;
             (l1, in_planes) = ResNet_make_layer in_planes 64 (layers ! 0) 1;
             (l2, in_planes) = ResNet_make_layer in_planes 128 (layers ! 1) 2;
             (l3, in_planes) = ResNet_make_layer in_planes 256 (layers ! 2) 2;
             (l4, in_planes) = ResNet_make_layer in_planes 512 (layers ! 3) 2
         in Inr \<lparr>rn_conv1 = Conv2d channels 64 7 2 3,
                 rn_bn1 = BatchNorm2d 64 True,
                 rn_relu = ReLU,
                 rn_maxpool = MaxPool2d 3 2 1,
                 rn_layer1 = l1, rn_layer2 = l2, rn_layer3 = l3, rn_layer4 = l4,
                 rn_fc1 = [Linear 200 (32 * 32), GELU],
                 rn_fc2 = [Linear 512 256, GELU, Linear 256 num_classes]\<rparr>))"

text \<open>\<open>torch.flatten(x, 1)\<close> merges every axis after the first; \<open>log_softmax\<close> over the last
  axis keeps the shape.\<close>

definition flatten_1 :: "shape \<Rightarrow> error + shape" where
  "flatten_1 x = (case x of a # b # rest \<Rightarrow> Inr [a, prod_list (b # rest)] | _ \<Rightarrow> Inl IndexError)"

definition log_softmax_shape :: "shape \<Rightarrow> error + shape" where
  "log_softmax_shape x = Inr x"

definition ResNet_forward :: "ResNet \<Rightarrow> shape \<Rightarrow> error + shape" where
  "ResNet_forward m x =
     bind_res (unsqueeze_m2 x) (\<lambda>x.
     bind_res (Sequential_forward (rn_fc1 m) x) (\<lambda>x.
     bind_res (size_at x 0) (\<lambda>d0.
     bind_res (size_at x 1) (\<lambda>d1.
     bind_res (view x [d0, d1, 32, 32]) (\<lambda>x.
     bind_res (layer_forward (rn_conv1 m) x) (\<lambda>x.
     bind_res (layer_forward (rn_bn1 m) x) (\<lambda>x.
     bind_res (layer_forward (rn_relu m) x) (\<lambda>x.
     bind_res (layer_forward (rn_maxpool m) x) (\<lambda>x.
     bind_res (stage_forward (rn_layer1 m) x) (\<lambda>x.
     bind_res (stage_forward (rn_layer2 m) x) (\<lambda>x.
     bind_res (stage_forward (rn_layer3 m) x) (\<lambda>x.
     bind_res (stage_forward (rn_layer4 m) x) (\<lambda>x.
     bind_res (AdaptiveAvgPool2d_1 x) (\<lambda>x.
     bind_res (flatten_1 x) (\<lambda>x.
     bind_res (Sequential_forward (rn_fc2 m) x) (\<lambda>x.
     log_softmax_shape x))))))))))))))))"

section \<open>Tensor values\<close>

text \<open>
  The residual blocks are also modelled on values. A tensor is a nested list of numbers,
  outermost axis first. The numbers are real: they stand for the finite values of a run,
  and the arithmetic on them is exact, so a statement about these definitions is a
  statement about the program only where the program's floating-point arithmetic is exact
  as well, as it is on the zero tensors that the properties below are about. The
  activation functions \<open>GELU\<close> and \<open>Sigmoid\<close> are parameters \<open>gelu\<close> and \<open>sg\<close> of
  every forward pass that applies them; nothing below depends on what they compute.
\<close>

type_synonym tensor1 = "real list"
type_synonym tensor2 = "real list list"
type_synonym tensor3 = "real list list list"
type_synonym tensor4 = "real list list list list"

definition is_tensor2 :: "nat \<Rightarrow> nat \<Rightarrow> tensor2 \<Rightarrow> bool" where
  "is_tensor2 c l x = (length x = c \<and> (\<forall>xc \<in> set x. length xc = l))"

definition is_tensor3 :: "nat \<Rightarrow> nat \<Rightarrow> nat \<Rightarrow> tensor3 \<Rightarrow> bool" where
  "is_tensor3 b c l x = (length x = b \<and> (\<forall>xb \<in> set x. is_tensor2 c l xb))"

definition is_tensor4 :: "nat \<Rightarrow> nat \<Rightarrow> nat \<Rightarrow> nat \<Rightarrow> tensor4 \<Rightarrow> bool" where
  "is_tensor4 b c h w x = (length x = b \<and> (\<forall>xb \<in> set x. is_tensor3 c h w xb))"

fun map_res :: "('a \<Rightarrow> error + 'b) \<Rightarrow> 'a list \<Rightarrow> error + 'b list" where
  "map_res f [] = Inr []"
| "map_res f (x # xs) =
     bind_res (f x) (\<lambda>y. bind_res (map_res f xs) (\<lambda>ys. Inr (y # ys)))"

definition relu :: "real \<Rightarrow> real" where
  "relu v = max 0 v"

definition dot :: "real list \<Rightarrow> real list \<Rightarrow> real" where
  "dot u v = sum_list (map2 (*) u v)"

definition mean :: "real list \<Rightarrow> real" where
  "mean xs = sum_list xs / real (length xs)"

definition map3 :: "(real \<Rightarrow> real) \<Rightarrow> tensor3 \<Rightarrow> tensor3" where
  "map3 f x = map (map (map f)) x"

definition map4 :: "(real \<Rightarrow> real) \<Rightarrow> tensor4 \<Rightarrow> tensor4" where
  "map4 f x = map (map (map (map f))) x"

subsection \<open>Linear layers without bias\<close>

text \<open>\<open>nn.Linear(fin, fout, bias=False)\<close>: the weight has \<open>fout\<close> rows of \<open>fin\<close> numbers and
  the input must have \<open>fin\<close> features.\<close>

record linear =
  ln_in :: nat
  ln_out :: nat
  ln_weight :: tensor2

definition wf_linear :: "linear \<Rightarrow> bool" where
  "wf_linear m = is_tensor2 (ln_out m) (ln_in m) (ln_weight m)"

definition linear_forward :: "linear \<Rightarrow> tensor1 \<Rightarrow> error + tensor1" where
  "linear_forward m x =
     (if length x = ln_in m then Inr (map (\<lambda>row. dot row x) (ln_weight m))
      else Inl RuntimeError)"

subsection \<open>Convolutions\<close>

text \<open>
  \<open>nn.Conv1d\<close>: the weight has the shape \<open>(out, in, kernel)\<close>, the bias is optional. One
  batch element is a list of \<open>in\<close> channels; the output at position \<open>i\<close> of output channel
  \<open>o\<close> is the bias plus the sum over the input channels of the kernel row against the
  window of the zero-padded channel that starts at \<open>i * stride\<close>. A tensor without
  channels carries no length in this representation and is refused.
\<close>

record conv1d =
  cv_in :: nat
  cv_out :: nat
  cv_kernel :: nat
  cv_stride :: nat
  cv_padding :: nat
  cv_weight :: tensor3
  cv_bias :: "tensor1 option"

definition wf_conv1d :: "conv1d \<Rightarrow> bool" where
  "wf_conv1d m =
     (is_tensor3 (cv_out m) (cv_in m) (cv_kernel m) (cv_weight m) \<and>
      (case cv_bias m of None \<Rightarrow> True | Some bs \<Rightarrow> length bs = cv_out m))"

definition pad1 :: "nat \<Rightarrow> tensor1 \<Rightarrow> tensor1" where
  "pad1 p xs = replicate p 0 @ xs @ replicate p 0"

definition window :: "nat \<Rightarrow> nat \<Rightarrow> 'a list \<Rightarrow> 'a list" where
  "window pos k xs = take k (drop pos xs)"

definition conv1d_at :: "nat \<Rightarrow> tensor2 \<Rightarrow> tensor2 \<Rightarrow> nat \<Rightarrow> real" where
  "conv1d_at k wo xb pos = sum_list (map2 (\<lambda>wc xc. dot wc (window pos k xc)) wo xb)"

definition bias_list :: "nat \<Rightarrow> tensor1 option \<Rightarrow> tensor1" where
  "bias_list n b = (case b of None \<Rightarrow> replicate n 0 | Some bs \<Rightarrow> bs)"

definition conv1d_single :: "conv1d \<Rightarrow> tensor2 \<Rightarrow> error + tensor2" where
  "conv1d_single m xb =
     (if xb = [] \<or> length xb \<noteq> cv_in m then Inl RuntimeError
      else
        bind_res (conv_out (length (hd xb)) (cv_kernel m) (cv_stride m) (cv_padding m)) (\<lambda>l'.
        Inr (map2 (\<lambda>wo bo.
                     map (\<lambda>i. bo + conv1d_at (cv_kernel m) wo (map (pad1 (cv_padding m)) xb)
                                       (i * cv_stride m)) [0..<l'])
               (cv_weight m) (bias_list (cv_out m) (cv_bias m)))))"

definition conv1d_forward :: "conv1d \<Rightarrow> tensor3 \<Rightarrow> error + tensor3" where
  "conv1d_forward m x = map_res (conv1d_single m) x"

text \<open>
  \<open>nn.Conv2d(..., bias=False)\<close> with a square kernel, as every two-dimensional convolution
  of the source is: the weight has the shape \<open>(out, in, kernel, kernel)\<close>.
\<close>

record conv2d =
  cw_in :: nat
  cw_out :: nat
  cw_kernel :: nat
  cw_stride :: nat
  cw_padding :: nat
  cw_weight :: tensor4

definition wf_conv2d :: "conv2d \<Rightarrow> bool" where
  "wf_conv2d m = is_tensor4 (cw_out m) (cw_in m) (cw_kernel m) (cw_kernel m) (cw_weight m)"

definition pad2 :: "nat \<Rightarrow> tensor2 \<Rightarrow> tensor2" where
  "pad2 p xc =
     (let w = (case xc of [] \<Rightarrow> 0 | r # _ \<Rightarrow> length r) + 2 * p
      in replicate p (replicate w 0) @ map (pad1 p) xc @ replicate p (replicate w 0))"

definition conv2d_at :: "nat \<Rightarrow> tensor3 \<Rightarrow> tensor3 \<Rightarrow> nat \<Rightarrow> nat \<Rightarrow> real" where
  "conv2d_at k wo xb i j =
     sum_list (map2 (\<lambda>wc xc.
                 sum_list (map2 (\<lambda>wr xr. dot wr (window j k xr)) wc (window i k xc)))
               wo xb)"

definition conv2d_single :: "conv2d \<Rightarrow> tensor3 \<Rightarrow> error + tensor3" where
  "conv2d_single m xb =
     (if xb = [] \<or> length xb \<noteq> cw_in m then Inl RuntimeError
      else if hd xb = [] then Inl RuntimeError
      else
        bind_res (conv_out (length (hd xb)) (cw_kernel m) (cw_stride m) (cw_padding m)) (\<lambda>h'.
        bind_res (conv_out (length (hd (hd xb))) (cw_kernel m) (cw_stride m) (cw_padding m)) (\<lambda>w'.
        Inr (map (\<lambda>wo.
                    map (\<lambda>i.
                      map (\<lambda>j. conv2d_at (cw_kernel m) wo (map (pad2 (cw_padding m)) xb)
                                    (i * cw_stride m) (j * cw_stride m)) [0..<w']) [0..<h'])
               (cw_weight m)))))"

definition conv2d_forward :: "conv2d \<Rightarrow> tensor4 \<Rightarrow> error + tensor4" where
  "conv2d_forward m x = map_res (conv2d_single m) x"

subsection \<open>Batch normalization\<close>

text \<open>
  A normalization layer holds its affine parameters, its running statistics and the
  \<open>training\<close> flag. In training mode it refuses an input with one value per channel, and
  otherwise normalizes each channel with the mean and the (biased) variance of the
  channel's values over the batch; in evaluation mode it uses the running statistics.
  The update of the running statistics by a training-mode pass has no part in the result
  of that pass and is left out.
\<close>

record batchnorm =
  bn_features :: nat
  bn_weight :: tensor1
  bn_bias :: tensor1
  bn_mean :: tensor1
  bn_var :: tensor1
  bn_eps :: real
  bn_training :: bool

definition wf_batchnorm :: "batchnorm \<Rightarrow> bool" where
  "wf_batchnorm m =
     (length (bn_weight m) = bn_features m \<and> length (bn_bias m) = bn_features m \<and>
      length (bn_mean m) = bn_features m \<and> length (bn_var m) = bn_features m \<and>
      0 < bn_eps m)"

text \<open>The state the library's constructor leaves: weight one, bias zero, running mean zero,
  running variance one, \<open>eps = 1e-5\<close>, training mode.\<close>

definition BatchNorm_init :: "nat \<Rightarrow> batchnorm" where
  "BatchNorm_init n =
     \<lparr>bn_features = n, bn_weight = replicate n 1, bn_bias = replicate n 0,
      bn_mean = replicate n 0, bn_var = replicate n 1, bn_eps = 1 / 100000,
      bn_training = True\<rparr>"

definition variance :: "real list \<Rightarrow> real" where
  "variance vs = mean (map (\<lambda>v. (v - mean vs) ^ 2) vs)"

definition bn_channel :: "batchnorm \<Rightarrow> real list \<Rightarrow> nat \<Rightarrow> real \<Rightarrow> real" where
  "bn_channel m vals c v =
     (let mu = (if bn_training m then mean vals else bn_mean m ! c);
          var = (if bn_training m then variance vals else bn_var m ! c)
      in (v - mu) / sqrt (var + bn_eps m) * bn_weight m ! c + bn_bias m ! c)"

definition values_per_channel3 :: "tensor3 \<Rightarrow> nat" where
  "values_per_channel3 x = sum_list (map (\<lambda>xb. case xb of [] \<Rightarrow> 0 | xc # _ \<Rightarrow> length xc) x)"

definition values_per_channel4 :: "tensor4 \<Rightarrow> nat" where
  "values_per_channel4 x =
     sum_list (map (\<lambda>xb. case xb of [] \<Rightarrow> 0 | xc # _ \<Rightarrow> length (concat xc)) x)"

definition channel_values3 :: "tensor3 \<Rightarrow> nat \<Rightarrow> real list" where
  "channel_values3 x c = concat (map (\<lambda>xb. xb ! c) x)"

definition channel_values4 :: "tensor4 \<Rightarrow> nat \<Rightarrow> real list" where
  "channel_values4 x c = concat (concat (map (\<lambda>xb. xb ! c) x))"

definition batchnorm1d_forward :: "batchnorm \<Rightarrow> tensor3 \<Rightarrow> error + tensor3" where
  "batchnorm1d_forward m x =
     (if bn_training m \<and> values_per_channel3 x = 1 then Inl ValueError
      else if \<exists>xb \<in> set x. length xb \<noteq> bn_features m then Inl RuntimeError
      else Inr (map (\<lambda>xb.
                  map2 (\<lambda>c xc. map (bn_channel m (channel_values3 x c) c) xc)
                    [0..<bn_features m] xb) x))"

definition batchnorm2d_forward :: "batchnorm \<Rightarrow> tensor4 \<Rightarrow> error + tensor4" where
  "batchnorm2d_forward m x =
     (if bn_training m \<and> values_per_channel4 x = 1 then Inl ValueError
      else if \<exists>xb \<in> set x. length xb \<noteq> bn_features m then Inl RuntimeError
      else Inr (map (\<lambda>xb.
                  map2 (\<lambda>c xc. map (map (bn_channel m (channel_values4 x c) c)) xc)
                    [0..<bn_features m] xb) x))"

subsection \<open>Broadcasting on values\<close>

text \<open>
  \<open>y.expand_as(x)\<close> repeats \<open>y\<close> along every axis on which it has size one and \<open>x\<close> has
  not, and fails on any other difference; an in-place operation expands its second operand
  to the first. An out-of-place sum broadcasts both operands, axis by axis.
\<close>

definition expand_list :: "nat \<Rightarrow> 'a list \<Rightarrow> error + 'a list" where
  "expand_list n ys =
     (if length ys = n then Inr ys
      else if length ys = 1 then Inr (replicate n (hd ys))
      else Inl RuntimeError)"

definition expand_as1 :: "tensor1 \<Rightarrow> tensor1 \<Rightarrow> error + tensor1" where
  "expand_as1 y x = expand_list (length x) y"

definition expand_as2 :: "tensor2 \<Rightarrow> tensor2 \<Rightarrow> error + tensor2" where
  "expand_as2 y x =
     bind_res (expand_list (length x) y) (\<lambda>y'. map_res (\<lambda>(yr, xr). expand_as1 yr xr) (zip y' x))"

definition expand_as3 :: "tensor3 \<Rightarrow> tensor3 \<Rightarrow> error + tensor3" where
  "expand_as3 y x =
     bind_res (expand_list (length x) y) (\<lambda>y'. map_res (\<lambda>(yr, xr). expand_as2 yr xr) (zip y' x))"

definition mul3 :: "tensor3 \<Rightarrow> tensor3 \<Rightarrow> tensor3" where
  "mul3 x y = map2 (map2 (map2 (*))) x y"

definition iadd3 :: "tensor3 \<Rightarrow> tensor3 \<Rightarrow> error + tensor3" where
  "iadd3 out residual =
     bind_res (expand_as3 residual out) (\<lambda>r. Inr (map2 (map2 (map2 (+))) out r))"

definition pair_up :: "'a list \<Rightarrow> 'b list \<Rightarrow> error + ('a \<times> 'b) list" where
  "pair_up xs ys =
     (if length xs = length ys then Inr (zip xs ys)
      else if length xs = 1 then Inr (zip (replicate (length ys) (hd xs)) ys)
      else if length ys = 1 then Inr (zip xs (replicate (length xs) (hd ys)))
      else Inl RuntimeError)"

definition add1 :: "tensor1 \<Rightarrow> tensor1 \<Rightarrow> error + tensor1" where
  "add1 x y = bind_res (pair_up x y) (\<lambda>ps. Inr (map (\<lambda>(a, b). a + b) ps))"

definition add2 :: "tensor2 \<Rightarrow> tensor2 \<Rightarrow> error + tensor2" where
  "add2 x y = bind_res (pair_up x y) (map_res (\<lambda>(a, b). add1 a b))"

definition add3 :: "tensor3 \<Rightarrow> tensor3 \<Rightarrow> error + tensor3" where
  "add3 x y = bind_res (pair_up x y) (map_res (\<lambda>(a, b). add2 a b))"

definition add4 :: "tensor4 \<Rightarrow> tensor4 \<Rightarrow> error + tensor4" where
  "add4 x y = bind_res (pair_up x y) (map_res (\<lambda>(a, b). add3 a b))"

subsection \<open>The channel gate of the residual block on values\<close>

text \<open>
  \<open>ResLayer\<close>: average over the length axis, \<open>view(b, c)\<close>, the two linear layers with
  \<open>GELU\<close> between and \<open>Sigmoid\<close> after, \<open>view(b, c, 1)\<close>, then
  \<open>x * y.expand_as(x)\<close>. The second view needs as many gate values as there are
  channels: \<open>y\<close> has one row for each batch element of \<open>x\<close>, so the element counts agree
  exactly when every row of \<open>y\<close> is as long as the batch element has channels. The
  average of an empty axis is not a number; the model has no value for it and refuses.
\<close>

record ResLayerV =
  rlv_fc1 :: linear
  rlv_fc2 :: linear

definition avg_pool1d :: "tensor3 \<Rightarrow> error + tensor2" where
  "avg_pool1d x =
     map_res (\<lambda>xb. if \<exists>xc \<in> set xb. xc = [] then Inl RuntimeError
                    else Inr (map mean xb)) x"

definition ResLayerV_fc ::
  "(real \<Rightarrow> real) \<Rightarrow> (real \<Rightarrow> real) \<Rightarrow> ResLayerV \<Rightarrow> tensor2 \<Rightarrow> error + tensor2" where
  "ResLayerV_fc sg gelu m y =
     map_res (\<lambda>yb.
        bind_res (linear_forward (rlv_fc1 m) yb) (\<lambda>h.
        bind_res (linear_forward (rlv_fc2 m) (map gelu h)) (\<lambda>z.
        Inr (map sg z)))) y"

definition view_b_c_1 :: "tensor2 \<Rightarrow> tensor3 \<Rightarrow> error + tensor3" where
  "view_b_c_1 y x =
     (if map length y = map length x then Inr (map (map (\<lambda>s. [s])) y)
      else Inl RuntimeError)"

definition ResLayerV_forward ::
  "(real \<Rightarrow> real) \<Rightarrow> (real \<Rightarrow> real) \<Rightarrow> ResLayerV \<Rightarrow> tensor3 \<Rightarrow> error + tensor3" where
  "ResLayerV_forward sg gelu m x =
     bind_res (avg_pool1d x) (\<lambda>y.
     bind_res (ResLayerV_fc sg gelu m y) (\<lambda>y.
     bind_res (view_b_c_1 y x) (\<lambda>y.
     bind_res (expand_as3 y x) (\<lambda>y.
     Inr (mul3 x y)))))"

subsection \<open>The residual blocks on values\<close>

text \<open>
  \<open>ResBasicBlock\<close> with its parameters. \<open>self.relu\<close> is \<open>GELU\<close>; the downsample branch,
  when there is one, is a convolution followed by a normalization, and calling it when
  there is none would be a call of \<open>None\<close>.
\<close>

record ResBasicBlockV =
  rbv_conv1 :: conv1d
  rbv_bn1 :: batchnorm
  rbv_conv2 :: conv1d
  rbv_bn2 :: batchnorm
  rbv_reslayer :: ResLayerV
  rbv_downsample :: "(conv1d \<times> batchnorm) option"
  rbv_stride :: nat

definition downsample1d :: "(conv1d \<times> batchnorm) option \<Rightarrow> tensor3 \<Rightarrow> error + tensor3" where
  "downsample1d d x =
     (case d of
        None \<Rightarrow> Inl TypeError
      | Some (c, n) \<Rightarrow> bind_res (conv1d_forward c x) (batchnorm1d_forward n))"

definition ResBasicBlockV_forward ::
  "(real \<Rightarrow> real) \<Rightarrow> (real \<Rightarrow> real) \<Rightarrow> ResBasicBlockV \<Rightarrow> tensor3 \<Rightarrow> error + tensor3" where
  "ResBasicBlockV_forward sg gelu m x =
     bind_res (conv1d_forward (rbv_conv1 m) x) (\<lambda>out.
     bind_res (batchnorm1d_forward (rbv_bn1 m) out) (\<lambda>out.
     bind_res (Inr (map3 gelu out)) (\<lambda>out.
     bind_res (conv1d_forward (rbv_conv2 m) out) (\<lambda>out.
     bind_res (batchnorm1d_forward (rbv_bn2 m) out) (\<lambda>out.
     bind_res (ResLayerV_forward sg gelu (rbv_reslayer m) out) (\<lambda>out.
     bind_res (if rbv_downsample m \<noteq> None then downsample1d (rbv_downsample m) x
               else Inr x) (\<lambda>residual.
     bind_res (iadd3 out residual) (\<lambda>out.
     Inr (map3 gelu out)))))))))"

text \<open>\<open>BasicBlock\<close> with its parameters; \<open>self.relu\<close> is \<open>ReLU\<close>.\<close>

record BasicBlockV =
  bbv_conv1 :: conv2d
  bbv_bn1 :: batchnorm
  bbv_conv2 :: conv2d
  bbv_bn2 :: batchnorm
  bbv_downsample :: "(conv2d \<times> batchnorm) option"
  bbv_stride :: nat

definition downsample2d :: "(conv2d \<times> batchnorm) option \<Rightarrow> tensor4 \<Rightarrow> error + tensor4" where
  "downsample2d d x =
     (case d of
        None \<Rightarrow> Inl TypeError
      | Some (c, n) \<Rightarrow> bind_res (conv2d_forward c x) (batchnorm2d_forward n))"

definition BasicBlockV_forward :: "BasicBlockV \<Rightarrow> tensor4 \<Rightarrow> error + tensor4" where
  "BasicBlockV_forward m x =
     bind_res (conv2d_forward (bbv_conv1 m) x) (\<lambda>out.
     bind_res (batchnorm2d_forward (bbv_bn1 m) out) (\<lambda>out.
     bind_res (Inr (map4 relu out)) (\<lambda>out.
     bind_res (conv2d_forward (bbv_conv2 m) out) (\<lambda>out.
     bind_res (batchnorm2d_forward (bbv_bn2 m) out) (\<lambda>out.
     bind_res (if bbv_downsample m \<noteq> None then downsample2d (bbv_downsample m) x
               else Inr x) (\<lambda>identity.
     bind_res (add4 out identity) (\<lambda>out.
     Inr (map4 relu out))))))))"

subsection \<open>Architectures and well-formed parameters\<close>

text \<open>
  The architecture of a block with parameters is its layers without the parameters; it
  ties the forward pass on values to the constructors of the source. A block with
  parameters is well formed for the constructor's arguments when its architecture is the
  one the constructor builds from them, training flags included, and every parameter has
  the shape of its layer.
\<close>

definition conv1d_arch :: "conv1d \<Rightarrow> layer" where
  "conv1d_arch c = Conv1d (cv_in c) (cv_out c) (cv_kernel c) (cv_stride c) (cv_padding c)"

definition conv2d_arch :: "conv2d \<Rightarrow> layer" where
  "conv2d_arch c = Conv2d (cw_in c) (cw_out c) (cw_kernel c) (cw_stride c) (cw_padding c)"

definition ResLayerV_arch :: "ResLayerV \<Rightarrow> ResLayer" where
  "ResLayerV_arch m =
     \<lparr>rl_fc = [Linear (ln_in (rlv_fc1 m)) (ln_out (rlv_fc1 m)), GELU,
               Linear (ln_in (rlv_fc2 m)) (ln_out (rlv_fc2 m)), Sigmoid]\<rparr>"

definition ResBasicBlockV_arch :: "ResBasicBlockV \<Rightarrow> ResBasicBlock" where
  "ResBasicBlockV_arch m =
     \<lparr>rb_conv1 = conv1d_arch (rbv_conv1 m),
      rb_bn1 = BatchNorm1d (bn_features (rbv_bn1 m)) (bn_training (rbv_bn1 m)),
      rb_relu = GELU,
      rb_conv2 = conv1d_arch (rbv_conv2 m),
      rb_bn2 = BatchNorm1d (bn_features (rbv_bn2 m)) (bn_training (rbv_bn2 m)),
      rb_reslayer = ResLayerV_arch (rbv_reslayer m),
      rb_downsample =
        map_option (\<lambda>d. [conv1d_arch (fst d),
                          BatchNorm1d (bn_features (snd d)) (bn_training (snd d))])
          (rbv_downsample m),
      rb_stride = rbv_stride m\<rparr>"

definition wf_ResBasicBlockV :: "ResBasicBlockV \<Rightarrow> bool" where
  "wf_ResBasicBlockV m =
     (wf_conv1d (rbv_conv1 m) \<and> wf_batchnorm (rbv_bn1 m) \<and>
      wf_conv1d (rbv_conv2 m) \<and> wf_batchnorm (rbv_bn2 m) \<and>
      wf_linear (rlv_fc1 (rbv_reslayer m)) \<and> wf_linear (rlv_fc2 (rbv_reslayer m)) \<and>
      (case rbv_downsample m of
         None \<Rightarrow> True
       | Some d \<Rightarrow> wf_conv1d (fst d) \<and> wf_batchnorm (snd d)))"

definition BasicBlockV_arch :: "BasicBlockV \<Rightarrow> BasicBlock" where
  "BasicBlockV_arch m =
     \<lparr>bb_conv1 = conv2d_arch (bbv_conv1 m),
      bb_bn1 = BatchNorm2d (bn_features (bbv_bn1 m)) (bn_training (bbv_bn1 m)),
      bb_relu = ReLU,
      bb_conv2 = conv2d_arch (bbv_conv2 m),
      bb_bn2 = BatchNorm2d (bn_features (bbv_bn2 m)) (bn_training (bbv_bn2 m)),
      bb_downsample =
        map_option (\<lambda>d. [conv2d_arch (fst d),
                          BatchNorm2d (bn_features (snd d)) (bn_training (snd d))])
          (bbv_downsample m),
      bb_stride = bbv_stride m\<rparr>"

definition wf_BasicBlockV :: "BasicBlockV \<Rightarrow> bool" where
  "wf_BasicBlockV m =
     (wf_conv2d (bbv_conv1 m) \<and> wf_batchnorm (bbv_bn1 m) \<and>
      wf_conv2d (bbv_conv2 m) \<and> wf_batchnorm (bbv_bn2 m) \<and>
      (case bbv_downsample m of
         None \<Rightarrow> True
       | Some d \<Rightarrow> wf_conv2d (fst d) \<and> wf_batchnorm (snd d)))"

subsection \<open>Zero-initialized convolutions\<close>

definition zero_conv1d :: "conv1d \<Rightarrow> bool" where
  "zero_conv1d m =
     ((\<forall>wo \<in> set (cv_weight m). \<forall>wc \<in> set wo. \<forall>v \<in> set wc. v = 0) \<and>
      (case cv_bias m of None \<Rightarrow> True | Some bs \<Rightarrow> \<forall>v \<in> set bs. v = 0))"

definition zero_conv2d :: "conv2d \<Rightarrow> bool" where
  "zero_conv2d m =
     (\<forall>wo \<in> set (cw_weight m). \<forall>wc \<in> set wo. \<forall>wr \<in> set wc. \<forall>v \<in> set wr. v = 0)"

definition zero_bias :: "batchnorm \<Rightarrow> bool" where
  "zero_bias m = (\<forall>v \<in> set (bn_bias m). v = 0)"

definition zeros3 :: "nat \<Rightarrow> nat \<Rightarrow> nat \<Rightarrow> tensor3" where
  "zeros3 b c l = replicate b (replicate c (replicate l 0))"

definition zeros4 :: "nat \<Rightarrow> nat \<Rightarrow> nat \<Rightarrow> nat \<Rightarrow> tensor4" where
  "zeros4 b c h w = replicate b (replicate c (replicate h (replicate w 0)))"

subsection \<open>The residual block in the words of the specification\<close>

text \<open>
  \<open>out\<close> is the first convolution, the normalization, the nonlinearity, the second
  convolution, the normalization and then the channel gate; the residual is
  \<open>downsample(x)\<close> if the stride is not one or the channel counts differ, else \<open>x\<close>; the
  result is the nonlinearity of \<open>out + residual\<close>.
\<close>

definition spec_ResidualBlock1D ::
  "(real \<Rightarrow> real) \<Rightarrow> nat \<Rightarrow> nat \<Rightarrow> nat \<Rightarrow>
   (tensor3 \<Rightarrow> error + tensor3) \<Rightarrow> (tensor3 \<Rightarrow> error + tensor3) \<Rightarrow>
   (tensor3 \<Rightarrow> error + tensor3) \<Rightarrow> (tensor3 \<Rightarrow> error + tensor3) \<Rightarrow>
   (tensor3 \<Rightarrow> error + tensor3) \<Rightarrow> (tensor3 \<Rightarrow> error + tensor3) \<Rightarrow>
   tensor3 \<Rightarrow> error + tensor3" where
  "spec_ResidualBlock1D nonlinearity channels_in channels_out stride
       conv1 norm1 conv2 norm2 ChannelGate1D downsample x =
     bind_res (conv1 x) (\<lambda>a.
     bind_res (norm1 a) (\<lambda>a.
     bind_res (conv2 (map3 nonlinearity a)) (\<lambda>a.
     bind_res (norm2 a) (\<lambda>a.
     bind_res (ChannelGate1D a) (\<lambda>out.
     bind_res (if stride \<noteq> 1 \<or> channels_in \<noteq> channels_out then downsample x else Inr x)
       (\<lambda>residual.
     bind_res (iadd3 out residual) (\<lambda>s.
     Inr (map3 nonlinearity s))))))))"

subsection \<open>Example blocks\<close>

text \<open>
  A one-dimensional block with four channels as \<open>ResBasicBlock(4, 4)\<close> builds it and a
  two-dimensional block with one channel as \<open>BasicBlock(1, 1)\<close> builds it, each with both
  convolutions set to zero and the normalization layers as constructed; and the
  two-dimensional block again with the bias of its second normalization layer set to one.
\<close>

definition example_conv1d :: conv1d where
  "example_conv1d =
     \<lparr>cv_in = 4, cv_out = 4, cv_kernel = 1, cv_stride = 1, cv_padding = 0,
      cv_weight = [[[0], [0], [0], [0]], [[0], [0], [0], [0]],
                   [[0], [0], [0], [0]], [[0], [0], [0], [0]]],
      cv_bias = Some [0, 0, 0, 0]\<rparr>"

definition example_ResBasicBlockV :: ResBasicBlockV where
  "example_ResBasicBlockV =
     \<lparr>rbv_conv1 = example_conv1d,
      rbv_bn1 = BatchNorm_init 4,
      rbv_conv2 = example_conv1d,
      rbv_bn2 = BatchNorm_init 4,
      rbv_reslayer =
        \<lparr>rlv_fc1 = \<lparr>ln_in = 4, ln_out = 1, ln_weight = [[1, 2, 3, 4]]\<rparr>,
         rlv_fc2 = \<lparr>ln_in = 1, ln_out = 4, ln_weight = [[1], [2], [3], [4]]\<rparr>\<rparr>,
      rbv_downsample = None,
      rbv_stride = 1\<rparr>"

definition example_conv2d :: conv2d where
  "example_conv2d =
     \<lparr>cw_in = 1, cw_out = 1, cw_kernel = 3, cw_stride = 1, cw_padding = 1,
      cw_weight = [[[[0, 0, 0], [0, 0, 0], [0, 0, 0]]]]\<rparr>"

definition example_BasicBlockV :: BasicBlockV where
  "example_BasicBlockV =
     \<lparr>bbv_conv1 = example_conv2d,
      bbv_bn1 = BatchNorm_init 1,
      bbv_conv2 = example_conv2d,
      bbv_bn2 = BatchNorm_init 1,
      bbv_downsample = None,
      bbv_stride = 1\<rparr>"

definition biased_BasicBlockV :: BasicBlockV where
  "biased_BasicBlockV = example_BasicBlockV\<lparr>bbv_bn2 := (BatchNorm_init 1)\<lparr>bn_bias := [1]\<rparr>\<rparr>"

section \<open>Properties\<close>

subsection \<open>Results of the error-propagating bind\<close>

lemma bind_res_Inr [simp]: "bind_res (Inr v) f = f v"
  by (simp add: bind_res_def)

lemma bind_res_Inl [simp]: "bind_res (Inl e) f = Inl e"
  by (simp add: bind_res_def)

subsection \<open>Segmentation\<close>

lemma overlapping_ceiling:
  assumes o: "overlapping_of W n k = Some s" and W: "0 \<le> W" and n: "0 \<le> n" "n \<le> 2 ^ k"
  shows "s = W - \<lceil>(of_int W * (of_int n / 2 ^ k) :: real)\<rceil>"
proof -
  define r :: real where "r = of_int n / 2 ^ k"
  have r: "0 \<le> r" "r \<le> 1" using n by (simp_all add: r_def)
  have "of_int W * r \<le> of_int W" using W r by (simp add: mult_left_le)
  then have nn: "0 \<le> of_int W - of_int W * r" by simp
  have "\<lfloor>of_int W - of_int W * r\<rfloor> = W - \<lceil>of_int W * r\<rceil>"
    using int_add_floor[of W "- (of_int W * r)"] by (simp add: ceiling_def)
  with nn have "py_int (of_int W - of_int W * r) = W - \<lceil>of_int W * r\<rceil>"
    by (simp add: py_int_def)
  moreover from o have "s = py_int (of_int W - of_int W * r)"
    by (simp add: overlapping_of_def r_def split: if_splits)
  ultimately show ?thesis by (simp add: r_def)
qed

lemma segment_forward_shape:
  assumes "0 < W" "W \<le> int L" "0 < s"
  shows "SignalSegmentDefinition_forward \<lparr>ssd_kernel_size = (1, W), ssd_stride = s\<rparr> [B, 1, 1, L]
         = Inr [B, nat ((int L - W) div s + 1), 1, nat W]"
  using assms
  by (simp add: SignalSegmentDefinition_forward_def unfold_def unfold_blocks_def permute_021_def unsqueeze_m2_def)

lemma overlapping_30_half: "overlapping_of 30 1 1 = Some 15"
  by (simp add: overlapping_of_def exact_double_def py_int_def)

text \<open>
  Claim C2, as the code has it. The module keeps the integer stride that its constructor
  computed, and for every positive stride \<open>s\<close> and every window that fits
  (\<open>0 < W \<le> L\<close>) the segmentation of a \<open>(B, 1, 1, L)\<close> signal returns the shape
  \<open>(B, K, 1, W)\<close> with \<open>K = floor((L - W) / s) + 1\<close>. The constructor truncates: where
  the double arithmetic of \<open>int(W - W * r)\<close> is exact, for a rate \<open>r = n / 2 ^ k\<close> between
  zero and one, the stride is \<open>W - ceiling(W * r)\<close>, not \<open>W - round(W * r)\<close>.
\<close>

theorem segment_count:
  assumes "0 < W" and "W \<le> int L" and "0 < s"
  shows "SignalSegmentDefinition_forward (segment_of W s) [B, 1, 1, L]
           = Inr [B, nat ((int L - W) div s + 1), 1, nat W] \<and>
         (0 \<le> n \<and> n \<le> 2 ^ k \<and> overlapping_of W n k = Some s \<longrightarrow>
            s = W - \<lceil>(of_int W * (of_int n / 2 ^ k) :: real)\<rceil>)"
proof
  show "SignalSegmentDefinition_forward (segment_of W s) [B, 1, 1, L]
           = Inr [B, nat ((int L - W) div s + 1), 1, nat W]"
    unfolding segment_of_def using assms by (rule segment_forward_shape)
  show "0 \<le> n \<and> n \<le> 2 ^ k \<and> overlapping_of W n k = Some s \<longrightarrow>
            s = W - \<lceil>(of_int W * (of_int n / 2 ^ k) :: real)\<rceil>"
    using overlapping_ceiling[of W n k s] assms(1) by auto
qed

text \<open>The specification's example: \<open>L = 3000\<close>, \<open>W = 30\<close>, \<open>r = 0.5\<close> gives stride 15 and
  199 segments.\<close>

theorem segment_count_witness:
  "overlapping_of 30 1 1 = Some 15 \<and>
   SignalSegmentDefinition_forward (segment_of 30 15) [4, 1, 1, 3000] = Inr [4, 199, 1, 30] \<and>
   (15::int) = 30 - \<lceil>of_int 30 * (of_int 1 / 2 ^ 1 :: real)\<rceil>"
proof -
  have h: "(0::int) < 30" "(30::int) \<le> int 3000" "(0::int) < 15" by simp_all
  have g: "(0::int) \<le> 1 \<and> (1::int) \<le> 2 ^ 1 \<and> overlapping_of 30 1 1 = Some 15"
    using overlapping_30_half by simp
  from segment_count[OF h, of 4 1 1] g show ?thesis by simp
qed

text \<open>
  With \<open>W = 10\<close> and \<open>r = 0.125\<close>, where the rate, the product \<open>1.25\<close> and the difference
  \<open>8.75\<close> are exact in binary floating point, the constructor's stride is 8 where
  \<open>W - round(W * r)\<close> is 9; a signal of length 100 is cut into 12 segments, not the 11 of
  the formula.
\<close>

theorem stride_round_counterexample:
  "overlapping_of 10 1 3 = Some 8 \<and> spec_stride 10 (1/8) = 9 \<and>
   SignalSegmentDefinition_forward (segment_of 10 8) [1, 1, 1, 100] = Inr [1, 12, 1, 10] \<and>
   (100 - 10) div nat (spec_stride 10 (1/8)) + 1 = (11::nat)"
  by (simp add: segment_of_def overlapping_of_def exact_double_def py_int_def spec_stride_def
      round_def SignalSegmentDefinition_forward_def unfold_def unfold_blocks_def permute_021_def
      unsqueeze_m2_def)

subsection \<open>Global node attention: construction\<close>

lemma broadcast_rev_same: "broadcast_rev xs xs = Inr xs"
  by (induction xs) auto

lemma broadcast_same [simp]: "broadcast x x = Inr x"
  by (simp add: broadcast_def broadcast_rev_same)

lemma GNA_forward_shape:
  assumes "0 < c" "0 < hid" "0 < h" "0 < w"
  shows "GNA_forward \<lparr>gna_fc = [Conv2d c hid 1 1 0, GELU, Conv2d hid c 1 1 0, Sigmoid]\<rparr> [b, c, h, w]
         = Inr [b, c, h, w]"
proof -
  have e: "expand_as [b, c, 1, 1] [b, c, h, w] = Inr [b, c, h, w]"
    by (simp add: expand_as_def broadcast_def)
  show ?thesis using assms
    by (simp add: GNA_forward_def AdaptiveAvgPool2d_1_def conv_out_def e del: One_nat_def)
qed

text \<open>
  Claim C8, as the code has it. \<open>GNA.__init__\<close> validates nothing: for
  \<open>1 \<le> reduction \<le> channel\<close> it succeeds with the bottleneck width
  \<open>channel // reduction\<close> (floor division), whether or not the division is exact, and the
  module it returns runs: its forward pass returns the shape of any input with
  \<open>channel\<close> channels and non-empty spatial axes.
\<close>

theorem GNA_init_floor:
  assumes "0 < reduction" "reduction \<le> channel" "0 < h" "0 < w"
  shows "\<exists>g. GNA_init channel reduction = Inr g \<and>
           gna_fc g = [Conv2d (nat channel) (nat (channel div reduction)) 1 1 0, GELU,
                       Conv2d (nat (channel div reduction)) (nat channel) 1 1 0, Sigmoid] \<and>
           GNA_forward g [b, nat channel, h, w] = Inr [b, nat channel, h, w]"
proof -
  have d: "0 < channel div reduction" using assms(1,2) by (simp add: pos_imp_zdiv_pos_iff)
  have c: "0 < channel" using assms(1,2) by simp
  have i: "GNA_init channel reduction =
        Inr \<lparr>gna_fc = [Conv2d (nat channel) (nat (channel div reduction)) 1 1 0, GELU,
                       Conv2d (nat (channel div reduction)) (nat channel) 1 1 0, Sigmoid]\<rparr>"
    using assms(1) c d by (simp add: GNA_init_def Conv2d_init_def)
  have "GNA_forward \<lparr>gna_fc = [Conv2d (nat channel) (nat (channel div reduction)) 1 1 0, GELU,
                       Conv2d (nat (channel div reduction)) (nat channel) 1 1 0, Sigmoid]\<rparr>
          [b, nat channel, h, w] = Inr [b, nat channel, h, w]"
    using c d assms(3,4) by (intro GNA_forward_shape) auto
  with i show ?thesis by simp
qed

theorem GNA_init_floor_witness:
  "\<exists>g. GNA_init 199 2 = Inr g \<and>
       gna_fc g = [Conv2d 199 99 1 1 0, GELU, Conv2d 99 199 1 1 0, Sigmoid] \<and>
       GNA_forward g [2, 199, 1, 30] = Inr [2, 199, 1, 30]"
proof -
  have "(0::int) < 2" "(2::int) \<le> 199" "(0::nat) < 1" "(0::nat) < 30" by simp_all
  from GNA_init_floor[OF this, of 2] show ?thesis by simp
qed

text \<open>199 segments and the reduction factor 2 of the source: 2 does not divide 199, and the
  constructor returns a module with bottleneck width 99.\<close>

theorem GNA_indivisible_counterexample:
  "(199::int) mod 2 \<noteq> 0 \<and>
   GNA_init 199 2 = Inr \<lparr>gna_fc = [Conv2d 199 99 1 1 0, GELU, Conv2d 99 199 1 1 0, Sigmoid]\<rparr>"
  by (simp add: GNA_init_def Conv2d_init_def)

subsection \<open>The segment encoder and the representation\<close>

lemma expand_as_last: "expand_as [b, c, 1] [b, c, l] = Inr [b, c, l]"
  by (simp add: expand_as_def broadcast_def)

lemma ResLayer_forward_shape:
  assumes "0 < c" "0 < l"
  shows "ResLayer_forward \<lparr>rl_fc = [Linear c h, GELU, Linear h c, Sigmoid]\<rparr> [b, c, l] = Inr [b, c, l]"
  using assms
  by (simp add: ResLayer_forward_def AdaptiveAvgPool1d_1_def view_def numel_def expand_as_last
      del: One_nat_def)

lemma iadd_same [simp]: "iadd x x = Inr x"
  by (simp add: iadd_def)

lemma conv_out_pointwise: "0 < l \<Longrightarrow> conv_out l 1 1 0 = Inr l"
  by (simp add: conv_out_def)

lemma make_layer_first:
  "make_layer inplanes planes 1 1 =
     Inr ([\<lparr>rb_conv1 = Conv1d inplanes planes 1 1 0, rb_bn1 = BatchNorm1d planes True, rb_relu = GELU,
            rb_conv2 = Conv1d planes planes 1 1 0, rb_bn2 = BatchNorm1d planes True,
            rb_reslayer = \<lparr>rl_fc = [Linear planes (planes div 4), GELU,
                                     Linear (planes div 4) planes, Sigmoid]\<rparr>,
            rb_downsample = (if inplanes \<noteq> planes
                             then Some [Conv1d inplanes planes 1 1 0, BatchNorm1d planes True] else None),
            rb_stride = 1\<rparr>], planes)"
  by (simp add: make_layer_def expansion_def ResBasicBlock_init_def ResLayer_init_def)

lemma stride1_block_forward:
  assumes "0 < planes" "0 < l" "b * l \<noteq> 1"
  shows "ResBasicBlock_forward
           \<lparr>rb_conv1 = Conv1d inplanes planes 1 1 0, rb_bn1 = BatchNorm1d planes True, rb_relu = GELU,
            rb_conv2 = Conv1d planes planes 1 1 0, rb_bn2 = BatchNorm1d planes True,
            rb_reslayer = \<lparr>rl_fc = [Linear planes (planes div 4), GELU,
                                     Linear (planes div 4) planes, Sigmoid]\<rparr>,
            rb_downsample = (if inplanes \<noteq> planes
                             then Some [Conv1d inplanes planes 1 1 0, BatchNorm1d planes True] else None),
            rb_stride = 1\<rparr> [b, inplanes, l] = Inr [b, planes, l]"
  using assms
  by (auto simp: ResBasicBlock_forward_def conv_out_pointwise ResLayer_forward_shape
      simp del: One_nat_def)

lemma features_forward:
  assumes "0 < w" "2 \<le> b"
  shows "Sequential_forward
            [Conv1d 1 64 49 6 (49 div 2), BatchNorm1d 64 True, GELU,
             MaxPool1d 7 4 (7 div 2),
             Conv1d 64 128 7 1 (7 div 2), BatchNorm1d 128 True, GELU,
             Conv1d 128 128 7 1 (7 div 2), BatchNorm1d 128 True, GELU,
             MaxPool1d 3 4 (3 div 2)] [b, 1, w] = Inr [b, 128, encoded_length w]"
  using assms
  by (simp add: conv_out_def pool_out_def encoded_length_def)


lemma SignalSegment2Vec_init_eq:
  "SignalSegment2Vec_init afr =
     Inr \<lparr>s2v_features =
            [Conv1d 1 64 49 6 (49 div 2), BatchNorm1d 64 True, GELU,
             MaxPool1d 7 4 (7 div 2),
             Conv1d 64 128 7 1 (7 div 2), BatchNorm1d 128 True, GELU,
             Conv1d 128 128 7 1 (7 div 2), BatchNorm1d 128 True, GELU,
             MaxPool1d 3 4 (3 div 2)],
          s2v_AFR = [afr_block afr]\<rparr>"
  unfolding SignalSegment2Vec_init_def make_layer_first afr_block_def
  by (simp only: bind_res_Inr case_prod_conv)

lemma SignalSegment2Vec_forward_shape:
  assumes "SignalSegment2Vec_init afr = Inr enc" "0 < afr" "0 < w" "2 \<le> b"
  shows "SignalSegment2Vec_forward enc [b, 1, w] = Inr [b, afr, encoded_length w]"
proof -
  have l: "0 < encoded_length w" by (simp add: encoded_length_def)
  from assms(1) have enc: "enc = \<lparr>s2v_features =
            [Conv1d 1 64 49 6 (49 div 2), BatchNorm1d 64 True, GELU,
             MaxPool1d 7 4 (7 div 2),
             Conv1d 64 128 7 1 (7 div 2), BatchNorm1d 128 True, GELU,
             Conv1d 128 128 7 1 (7 div 2), BatchNorm1d 128 True, GELU,
             MaxPool1d 3 4 (3 div 2)],
          s2v_AFR = [afr_block afr]\<rparr>"
    unfolding SignalSegment2Vec_init_eq by (simp only: sum.inject)
  have a: "ResBasicBlock_forward (afr_block afr) [b, 128, encoded_length w] = Inr [b, afr, encoded_length w]"
  proof -
    have "b * encoded_length w \<noteq> 1" using assms(4) by (cases "encoded_length w") auto
    then show ?thesis unfolding afr_block_def by (rule stride1_block_forward[OF assms(2) l])
  qed
  show ?thesis unfolding enc SignalSegment2Vec_forward_def
    by (simp only: SignalSegment2Vec.simps features_forward[OF assms(3,4)] bind_res_Inr
        blocks_forward.simps a)
qed

lemma unsqueeze_1_pair: "unsqueeze 1 [b, w] = Inr [b, 1, w]"
  by (simp add: unsqueeze_def)

lemma unsqueeze_2_triple: "unsqueeze 2 [b, k, f] = Inr [b, k, 1, f]"
  by (simp add: unsqueeze_def)

lemma encode_segments_shape:
  assumes "SignalSegment2Vec_init afr = Inr enc" "0 < afr" "0 < w" "2 \<le> b" "\<forall>i \<in> set idxs. i < k"
  shows "encode_segments enc [b, k, w] idxs
         = Inr (replicate (length idxs) [b, 1, afr * encoded_length w])"
  using assms(5)
proof (induction idxs)
  case Nil
  then show ?case by simp
next
  case (Cons i idxs)
  have v: "view_n_1_rest [b, afr, encoded_length w] b = Inr [b, 1, afr * encoded_length w]"
    using assms(4) by (simp add: view_n_1_rest_def numel_def)
  from Cons show ?case
    by (simp add: index_axis1_def unsqueeze_1_pair size_at_def v
        SignalSegment2Vec_forward_shape[OF assms(1,2,3,4)] del: One_nat_def)
qed

lemma cat_dim1_replicate:
  assumes "0 < k"
  shows "cat_dim1 (replicate k [b, 1, f]) = Inr [b, k, f]"
proof -
  obtain j where k: "k = Suc j" using assms by (cases k) auto
  have "sum_list (map (\<lambda>u. u ! 1) (replicate j [b, 1, f])) = j"
    by (induction j) auto
  then show ?thesis by (simp add: cat_dim1_def k)
qed

lemma squeeze_segments:
  assumes "b \<noteq> 1" "k \<noteq> 1" "w \<noteq> 1"
  shows "squeeze [b, k, 1, w] = [b, k, w]"
  using assms by (simp add: squeeze_def)

lemma SignalSegmentRepresentation_init_fields:
  assumes "SignalSegmentRepresentation_init W s K = Inr m"
  shows "SignalSegment2Vec_init 30 = Inr (ssr_segment2vec m)"
    and "GNA_init K 2 = Inr (ssr_gna m)"
    and "ssr_segment m = segment_of W s"
  using assms
  by (auto simp: SignalSegmentRepresentation_init_def bind_res_def split: sum.splits)

lemma representation_gated_shape:
  assumes init: "SignalSegmentRepresentation_init W s (int K) = Inr m"
    and B: "2 \<le> B" and W: "2 \<le> W" "W \<le> int L"
    and s: "0 < s"
    and K: "K = nat ((int L - W) div s + 1)" "2 \<le> K"
  shows "SignalSegmentRepresentation_gated m [B, 1, 1, L]
         = Inr [B, K, 1, 30 * encoded_length (nat W)]"
proof -
  note f = SignalSegmentRepresentation_init_fields[OF init]
  have seg: "SignalSegmentDefinition_forward (ssr_segment m) [B, 1, 1, L] = Inr [B, K, 1, nat W]"
    unfolding f(3) segment_of_def K(1) using W s by (intro segment_forward_shape) auto
  have sq: "squeeze [B, K, 1, nat W] = [B, K, nat W]"
    using B W K(2) by (intro squeeze_segments) auto
  have enc: "encode_segments (ssr_segment2vec m) [B, K, nat W] [0..<K]
             = Inr (replicate K [B, 1, 30 * encoded_length (nat W)])"
    using encode_segments_shape[OF f(1), of "nat W" B "[0..<K]" K] B W by simp
  have cat: "cat_dim1 (replicate K [B, 1, 30 * encoded_length (nat W)])
             = Inr [B, K, 30 * encoded_length (nat W)]"
    using K(2) by (intro cat_dim1_replicate) simp
  have g: "ssr_gna m = \<lparr>gna_fc = [Conv2d K (K div 2) 1 1 0, GELU, Conv2d (K div 2) K 1 1 0, Sigmoid]\<rparr>"
    using f(2) K(2) by (auto simp: GNA_init_def Conv2d_init_def nat_div_distrib)
  have gf: "GNA_forward (ssr_gna m) [B, K, 1, 30 * encoded_length (nat W)]
            = Inr [B, K, 1, 30 * encoded_length (nat W)]"
    unfolding g using K(2) by (intro GNA_forward_shape) (auto simp: encoded_length_def)
  show ?thesis
    unfolding SignalSegmentRepresentation_gated_def seg
    by (simp add: sq size_at_def enc cat unsqueeze_2_triple gf del: One_nat_def)
qed

lemma representation_forward_shape:
  assumes "SignalSegmentRepresentation_init W s (int K) = Inr m"
    and "2 \<le> B" and "2 \<le> W" "W \<le> int L"
    and "0 < s"
    and "K = nat ((int L - W) div s + 1)" "2 \<le> K"
  shows "SignalSegmentRepresentation_forward m [B, 1, 1, L]
         = Inr [B, 1, K, 30 * encoded_length (nat W)]"
  unfolding SignalSegmentRepresentation_forward_def representation_gated_shape[OF assms]
  by (simp add: permute_0213_def)

subsection \<open>The residual network\<close>

lemma conv_out_3x3: "0 < h \<Longrightarrow> 0 < s \<Longrightarrow> conv_out h 3 s 1 = Inr ((h - 1) div s + 1)"
  by (simp add: conv_out_def)

lemma conv_out_1x1: "0 < h \<Longrightarrow> 0 < s \<Longrightarrow> conv_out h 1 s 0 = Inr ((h - 1) div s + 1)"
  by (simp add: conv_out_def)

lemma conv_out_same: "0 < h \<Longrightarrow> conv_out h 3 1 1 = Inr h"
  by (simp add: conv_out_def)

lemma BasicBlock_first_forward:
  assumes "0 < h" "0 < w" "0 < s" "0 < p"
    and "n * ((h - 1) div s + 1) * ((w - 1) div s + 1) \<noteq> 1"
  shows "BasicBlock_forward
           (BasicBlock_init cin p s
              (if s \<noteq> 1 \<or> cin \<noteq> p then Some [Conv2d cin p 1 s 0, BatchNorm2d p True] else None))
           [n, cin, h, w]
         = Inr [n, p, (h - 1) div s + 1, (w - 1) div s + 1]"
  using assms
  by (auto simp: BasicBlock_forward_def BasicBlock_init_def conv_out_3x3 conv_out_1x1 conv_out_same
      simp del: One_nat_def)

lemma BasicBlock_identity_forward:
  assumes "0 < h" "0 < w" "0 < p" "n * h * w \<noteq> 1"
  shows "BasicBlock_forward (BasicBlock_init p p 1 None) [n, p, h, w] = Inr [n, p, h, w]"
  using assms
  by (auto simp: BasicBlock_forward_def BasicBlock_init_def conv_out_same simp del: One_nat_def)

lemma more_BasicBlocks_forward:
  assumes "0 < h" "0 < w" "0 < p" "n * h * w \<noteq> 1"
  shows "stage_forward (more_BasicBlocks p k) [n, p, h, w] = Inr [n, p, h, w]"
  by (induction k) (simp_all add: BasicBlock_identity_forward[OF assms] del: One_nat_def)

lemma ResNet_make_layer_forward:
  assumes "0 < h" "0 < w" "0 < s" "0 < p"
    and "n * ((h - 1) div s + 1) * ((w - 1) div s + 1) \<noteq> 1"
  shows "stage_forward (fst (ResNet_make_layer cin p blocks s)) [n, cin, h, w]
         = Inr [n, p, (h - 1) div s + 1, (w - 1) div s + 1]"
proof -
  have "stage_forward (more_BasicBlocks p (blocks - 1)) [n, p, (h - 1) div s + 1, (w - 1) div s + 1]
        = Inr [n, p, (h - 1) div s + 1, (w - 1) div s + 1]"
    using assms(4,5) by (intro more_BasicBlocks_forward) simp_all
  then show ?thesis
    unfolding ResNet_make_layer_def Let_def fst_conv stage_forward.simps
      BasicBlock_first_forward[OF assms] bind_res_Inr .
qed

lemma ResNet_make_layer_snd [simp]: "snd (ResNet_make_layer cin p blocks s) = p"
  by (simp add: ResNet_make_layer_def)

lemma ResNet_init_fields:
  assumes "ResNet_init layers channels num_classes = Inr m"
  shows "rn_conv1 m = Conv2d channels 64 7 2 3" "rn_bn1 m = BatchNorm2d 64 True" "rn_relu m = ReLU"
    "rn_maxpool m = MaxPool2d 3 2 1"
    "rn_layer1 m = fst (ResNet_make_layer 64 64 (layers ! 0) 1)"
    "rn_layer2 m = fst (ResNet_make_layer 64 128 (layers ! 1) 2)"
    "rn_layer3 m = fst (ResNet_make_layer 128 256 (layers ! 2) 2)"
    "rn_layer4 m = fst (ResNet_make_layer 256 512 (layers ! 3) 2)"
    "rn_fc1 m = [Linear 200 1024, GELU]"
    "rn_fc2 m = [Linear 512 256, GELU, Linear 256 num_classes]"
  using assms
  by (auto simp: ResNet_init_def Let_def split_beta split: if_splits)


lemma ResNet_forward_prefix:
  assumes init: "ResNet_init layers channels num_classes = Inr m"
  shows "ResNet_forward m [B, channels, 200] =
     bind_res (stage_forward (rn_layer4 m) [B, 256, 2, 2]) (\<lambda>x.
     bind_res (AdaptiveAvgPool2d_1 x) (\<lambda>x.
     bind_res (flatten_1 x) (\<lambda>x.
     bind_res (Sequential_forward (rn_fc2 m) x) (\<lambda>x.
     log_softmax_shape x))))"
proof -
  note f = ResNet_init_fields[OF init]
  have v: "view [B, channels, 1, 1024] [B, channels, 32, 32] = Inr [B, channels, 32, 32]"
    by (simp add: view_def numel_def)
  have l1: "stage_forward (rn_layer1 m) [B, 64, 8, 8] = Inr [B, 64, 8, 8]"
  proof -
    have "B * ((8 - 1) div 1 + 1) * ((8 - 1) div 1 + 1) \<noteq> 1" by (simp; arith?)
    from ResNet_make_layer_forward[OF _ _ _ _ this, of 64 64 "layers ! 0"] show ?thesis
      unfolding f by simp
  qed
  have l2: "stage_forward (rn_layer2 m) [B, 64, 8, 8] = Inr [B, 128, 4, 4]"
  proof -
    have "B * ((8 - 1) div 2 + 1) * ((8 - 1) div 2 + 1) \<noteq> 1" by (simp; arith?)
    from ResNet_make_layer_forward[OF _ _ _ _ this, of 128 64 "layers ! 1"] show ?thesis
      unfolding f by simp
  qed
  have l3: "stage_forward (rn_layer3 m) [B, 128, 4, 4] = Inr [B, 256, 2, 2]"
  proof -
    have "B * ((4 - 1) div 2 + 1) * ((4 - 1) div 2 + 1) \<noteq> 1" by (simp; arith?)
    from ResNet_make_layer_forward[OF _ _ _ _ this, of 256 128 "layers ! 2"] show ?thesis
      unfolding f by simp
  qed
  have stem: "layer_forward (Conv2d channels 64 7 2 3) [B, channels, 32, 32] = Inr [B, 64, 16, 16]"
    by (simp add: conv_out_def)
  have bn: "layer_forward (BatchNorm2d 64 True) [B, 64, 16, 16] = Inr [B, 64, 16, 16]"
    by simp
  have mp: "layer_forward (MaxPool2d 3 2 1) [B, 64, 16, 16] = Inr [B, 64, 8, 8]"
    by (simp add: pool_out_def conv_out_def)
  show ?thesis
    unfolding ResNet_forward_def f(1-4,9,10)
    by (simp add: unsqueeze_m2_def size_at_def v stem bn mp l1 l2 l3
        del: One_nat_def layer_forward.simps(2,4,5,6))
qed

lemma ResNet_forward_ok:
  assumes init: "ResNet_init layers channels num_classes = Inr m" and B: "2 \<le> B"
    and nc: "0 < num_classes"
  shows "ResNet_forward m [B, channels, 200] = Inr [B, num_classes]"
proof -
  note f = ResNet_init_fields[OF init]
  have l4: "stage_forward (rn_layer4 m) [B, 256, 2, 2] = Inr [B, 512, 1, 1]"
  proof -
    have "B * ((2 - 1) div 2 + 1) * ((2 - 1) div 2 + 1) \<noteq> 1" using B by simp
    from ResNet_make_layer_forward[OF _ _ _ _ this, of 512 256 "layers ! 3"] show ?thesis
      unfolding f by simp
  qed
  show ?thesis
    unfolding ResNet_forward_prefix[OF init] l4 f(10) using nc
    by (simp add: AdaptiveAvgPool2d_1_def flatten_1_def log_softmax_shape_def del: One_nat_def)
qed

lemma ResNet_forward_batch_one:
  assumes init: "ResNet_init layers channels num_classes = Inr m"
  shows "ResNet_forward m [1, channels, 200] = Inl ValueError"
proof -
  note f = ResNet_init_fields[OF init]
  have "BasicBlock_forward
           (BasicBlock_init 256 512 2 (Some [Conv2d 256 512 1 2 0, BatchNorm2d 512 True]))
           [1, 256, 2, 2] = Inl ValueError"
    by (simp add: BasicBlock_forward_def BasicBlock_init_def conv_out_def)
  then have l4: "stage_forward (rn_layer4 m) [1, 256, 2, 2] = Inl ValueError"
    unfolding f by (simp add: ResNet_make_layer_def)
  show ?thesis unfolding ResNet_forward_prefix[OF init] l4 by simp
qed

lemma ResNet_forward_bad_last:
  assumes init: "ResNet_init layers channels num_classes = Inr m"
    and x: "x \<noteq> []" "last x \<noteq> 200"
  shows "ResNet_forward m x = Inl RuntimeError"
  using x unfolding ResNet_forward_def ResNet_init_fields[OF init]
  by (simp add: unsqueeze_m2_def)

lemma ResNet_init_ok:
  assumes "4 \<le> length layers"
  shows "\<exists>m. ResNet_init layers channels num_classes = Inr m"
  using assms by (simp add: ResNet_init_def Let_def split_beta)

subsection \<open>A batch of one, the representation, the network and the encoder block\<close>

lemma segment_forward_form:
  assumes "SignalSegmentDefinition_forward s [n, c0, h, L] = Inr y"
  shows "\<exists>l c. y = [n, l, 1, c] \<and> (c0 = 1 \<longrightarrow> 0 < c)"
  using assms
  by (auto simp: SignalSegmentDefinition_forward_def unfold_def unfold_blocks_def permute_021_def
      unsqueeze_m2_def bind_res_def split: if_splits sum.splits)

lemma batch_one_aux:
  assumes "0 < c"
  shows "\<exists>e. bind_res (size_at (squeeze [1, l, 1, c]) 1) (\<lambda>k.
           bind_res (encode_segments enc (squeeze [1, l, 1, c]) [0..<k]) f) = Inl e"
proof (cases "l = 1 \<or> c = 1")
  case True
  then show ?thesis by (auto simp: squeeze_def size_at_def)
next
  case False
  then have sq: "squeeze [1, l, 1, c] = [l, c]" by (simp add: squeeze_def)
  obtain j where c: "c = Suc j" using assms by (cases c) auto
  have "[0..<c] = 0 # [1..<c]" unfolding c by (simp add: upt_rec)
  then show ?thesis unfolding sq by (simp add: size_at_def index_axis1_def)
qed

lemma gated_batch_one:
  "\<exists>e. SignalSegmentRepresentation_gated m [1, 1, 1, L] = Inl e"
proof (cases "SignalSegmentDefinition_forward (ssr_segment m) [1, 1, 1, L]")
  case (Inl e)
  then show ?thesis by (simp add: SignalSegmentRepresentation_gated_def)
next
  case (Inr y)
  from segment_forward_form[OF Inr] obtain l c where y: "y = [1, l, 1, c]" and c: "0 < c" by auto
  from batch_one_aux[OF c] show ?thesis
    unfolding SignalSegmentRepresentation_gated_def Inr y bind_res_Inr Let_def .
qed

lemma forward_batch_one:
  "\<exists>e. SignalSegmentRepresentation_forward m [1, 1, 1, L] = Inl e"
proof -
  from gated_batch_one obtain e where "SignalSegmentRepresentation_gated m [1, 1, 1, L] = Inl e"
    by blast
  then show ?thesis by (simp add: SignalSegmentRepresentation_forward_def)
qed

lemma SignalSegmentRepresentation_init_ok:
  assumes "0 \<le> K"
  shows "\<exists>m. SignalSegmentRepresentation_init W s K = Inr m"
  using assms
  by (simp add: SignalSegmentRepresentation_init_def SignalSegment2Vec_init_eq GNA_init_def
      Conv2d_init_def pos_imp_zdiv_nonneg_iff)

lemma encoded_length_30: "encoded_length 30 = 1"
  by (simp add: encoded_length_def)

lemma example_forward:
  assumes "SignalSegmentRepresentation_init 30 15 199 = Inr m" "2 \<le> B"
  shows "SignalSegmentRepresentation_forward m [B, 1, 1, 3000] = Inr [B, 1, 199, 30]"
proof -
  have i: "SignalSegmentRepresentation_init 30 15 (int 199) = Inr m" using assms(1) by simp
  have "SignalSegmentRepresentation_forward m [B, 1, 1, 3000]
        = Inr [B, 1, 199, 30 * encoded_length (nat 30)]"
    by (rule representation_forward_shape[OF i assms(2)]) simp_all
  then show ?thesis by (simp add: encoded_length_30)
qed

text \<open>
  Claim C1. \<open>x.squeeze()\<close> drops every axis of size one, the batch axis too: for a batch
  of one the segments \<open>(1, K, 1, W)\<close> become \<open>(K, W)\<close>, and \<open>x[:, idx, :]\<close> raises.
  Whatever the module and the signal length, \<open>forward\<close> on a \<open>(1, 1, 1, L)\<close> input returns no
  tensor; with the specification's configuration (window 30, rate 0.5 and so stride 15,
  199 segments) and \<open>L = 3000\<close> the exception is an \<open>IndexError\<close>.
\<close>

theorem batch_one_forward_fails:
  "(\<exists>e. SignalSegmentRepresentation_forward m [1, 1, 1, L] = Inl e) \<and>
   (\<exists>m0. overlapping_of 30 1 1 = Some 15 \<and>
         SignalSegmentRepresentation_init 30 15 199 = Inr m0 \<and>
         SignalSegmentRepresentation_forward m0 [1, 1, 1, 3000] = Inl IndexError)"
proof
  show "\<exists>e. SignalSegmentRepresentation_forward m [1, 1, 1, L] = Inl e"
    by (rule forward_batch_one)
next
  obtain m0 where i: "SignalSegmentRepresentation_init 30 15 199 = Inr m0"
    using SignalSegmentRepresentation_init_ok[of 199 30 15] by auto
  note f = SignalSegmentRepresentation_init_fields[OF i]
  have seg: "SignalSegmentDefinition_forward (ssr_segment m0) [1, 1, 1, 3000] = Inr [1, 199, 1, 30]"
    unfolding f(3) segment_of_def
    using segment_forward_shape[of 30 3000 15 1] by simp
  have sq: "squeeze [1, 199, 1, 30] = [199, 30]" by (simp add: squeeze_def)
  have up: "[0..<30] = 0 # [1..<30]" by (simp add: upt_rec)
  have "SignalSegmentRepresentation_gated m0 [1, 1, 1, 3000] = Inl IndexError"
    unfolding SignalSegmentRepresentation_gated_def seg bind_res_Inr Let_def sq
    by (simp add: size_at_def up index_axis1_def del: upt_Suc)
  then have "SignalSegmentRepresentation_forward m0 [1, 1, 1, 3000] = Inl IndexError"
    by (simp add: SignalSegmentRepresentation_forward_def)
  with i overlapping_30_half
  show "\<exists>m0. overlapping_of 30 1 1 = Some 15 \<and>
         SignalSegmentRepresentation_init 30 15 199 = Inr m0 \<and>
         SignalSegmentRepresentation_forward m0 [1, 1, 1, 3000] = Inl IndexError" by blast
qed




text \<open>
  Claim C9, as the code has it. \<open>fc1\<close> is \<open>Linear(200, 32 * 32)\<close> whatever the constructor
  arguments, so \<open>forward\<close> fails with a shape error on every input whose final axis is not
  200. On an input of shape \<open>(B, channels, 200)\<close>, with the constructor's channel count,
  \<open>forward\<close> returns the shape \<open>(B, num_classes)\<close> when the batch has at least two elements:
  the network as constructed is in training mode, in which the normalization of the last
  stage, on a \<open>1 \<times> 1\<close> map, refuses a batch of one.
\<close>

theorem ResNet_forward_final_axis:
  assumes "ResNet_init layers channels num_classes = Inr m"
  shows "(x \<noteq> [] \<and> last x \<noteq> 200 \<longrightarrow> ResNet_forward m x = Inl RuntimeError) \<and>
         (2 \<le> B \<and> 0 < channels \<and> 0 < num_classes \<longrightarrow>
            ResNet_forward m [B, channels, 200] = Inr [B, num_classes])"
  using ResNet_forward_bad_last[OF assms] ResNet_forward_ok[OF assms] by blast

theorem ResNet_forward_final_axis_witness:
  "\<exists>m. ResNet_init [2, 2, 2, 2] 1 18 = Inr m \<and>
       ResNet_forward m [5, 1, 199] = Inl RuntimeError \<and>
       ResNet_forward m [5, 1, 200] = Inr [5, 18]"
proof -
  obtain m where i: "ResNet_init [2, 2, 2, 2] 1 18 = Inr m"
    using ResNet_init_ok[of "[2, 2, 2, 2]" 1 18] by auto
  from ResNet_forward_final_axis[OF i, of "[5, 1, 199]" 5] i show ?thesis by auto
qed

text \<open>The default single-channel network on one signal, an input of shape \<open>(1, 1, 200)\<close>: the
  final axis is 200 and the first normalization of the last stage raises \<open>ValueError\<close>.\<close>

theorem ResNet_final_axis_counterexample:
  "\<exists>m. ResNet_init [2, 2, 2, 2] 1 18 = Inr m \<and> last [1, 1, 200] = (200::nat) \<and>
       ResNet_forward m [1, 1, 200] = Inl ValueError"
proof -
  obtain m where i: "ResNet_init [2, 2, 2, 2] 1 18 = Inr m"
    using ResNet_init_ok[of "[2, 2, 2, 2]" 1 18] by auto
  from ResNet_forward_batch_one[OF i] i show ?thesis by auto
qed

text \<open>
  Claim C10, as the code has it. \<open>ResBasicBlock.__init__\<close> gives its \<open>stride\<close> argument to
  \<open>nn.Conv1d\<close> as the kernel size: the first convolution of a block built with stride
  parameter \<open>s\<close> has kernel size \<open>s\<close> and stride 1. The block \<open>SignalSegment2Vec\<close> builds has
  stride parameter 1, so both of its convolutions are pointwise, and its forward pass maps
  \<open>(B, 128, L)\<close> to \<open>(B, afr_reduced_cnn_size, L)\<close> whenever \<open>B * L\<close> is at least two; the
  block as constructed is in training mode, and its normalization refuses a single value
  per channel.
\<close>

theorem conv1_kernel_is_stride_argument:
  assumes "ResBasicBlock_init inplanes planes s d r = Inr blk"
    and "0 < afr" and "0 < B" and "0 < L" and "2 \<le> B * L"
  shows "rb_conv1 blk = Conv1d inplanes planes s 1 0 \<and>
         (\<exists>enc m. SignalSegment2Vec_init afr = Inr enc \<and> s2v_AFR enc = [m] \<and>
            rb_conv1 m = Conv1d 128 afr 1 1 0 \<and> rb_conv2 m = Conv1d afr afr 1 1 0 \<and>
            ResBasicBlock_forward m [B, 128, L] = Inr [B, afr, L])"
proof
  from assms(1) show "rb_conv1 blk = Conv1d inplanes planes s 1 0"
    by (auto simp: ResBasicBlock_init_def bind_res_def split: sum.splits)
next
  have "B * L \<noteq> 1" using assms(5) by linarith
  then have "ResBasicBlock_forward (afr_block afr) [B, 128, L] = Inr [B, afr, L]"
    unfolding afr_block_def by (rule stride1_block_forward[OF assms(2,4)])
  moreover have "rb_conv1 (afr_block afr) = Conv1d 128 afr 1 1 0"
    "rb_conv2 (afr_block afr) = Conv1d afr afr 1 1 0"
    by (simp_all add: afr_block_def)
  moreover obtain enc where "SignalSegment2Vec_init afr = Inr enc" "s2v_AFR enc = [afr_block afr]"
    unfolding SignalSegment2Vec_init_eq by (simp del: One_nat_def)
  ultimately show "\<exists>enc m. SignalSegment2Vec_init afr = Inr enc \<and> s2v_AFR enc = [m] \<and>
            rb_conv1 m = Conv1d 128 afr 1 1 0 \<and> rb_conv2 m = Conv1d afr afr 1 1 0 \<and>
            ResBasicBlock_forward m [B, 128, L] = Inr [B, afr, L]"
    by blast
qed

theorem conv1_kernel_is_stride_argument_witness:
  "(\<exists>blk. ResBasicBlock_init 128 30 2 None 4 = Inr blk \<and> rb_conv1 blk = Conv1d 128 30 2 1 0) \<and>
   (\<exists>enc m. SignalSegment2Vec_init 30 = Inr enc \<and> s2v_AFR enc = [m] \<and>
      rb_conv1 m = Conv1d 128 30 1 1 0 \<and> rb_conv2 m = Conv1d 30 30 1 1 0 \<and>
      ResBasicBlock_forward m [4, 128, 1] = Inr [4, 30, 1])"
proof -
  obtain blk where i: "ResBasicBlock_init 128 30 2 None 4 = Inr blk"
    by (simp add: ResBasicBlock_init_def ResLayer_init_def)
  have h: "(0::nat) < 30" "(0::nat) < 4" "(0::nat) < 1" "(2::nat) \<le> 4 * 1" by simp_all
  from conv1_kernel_is_stride_argument[OF i h] i show ?thesis by blast
qed

text \<open>One segment of length 30 leaves one value per channel: on the shape \<open>(1, 128, 1)\<close> the
  block of the encoder raises \<open>ValueError\<close> in its first normalization.\<close>

theorem conv1_kernel_counterexample:
  "\<exists>enc m. SignalSegment2Vec_init 30 = Inr enc \<and> s2v_AFR enc = [m] \<and>
      ResBasicBlock_forward m [1, 128, 1] = Inl ValueError"
proof -
  have "ResBasicBlock_forward (afr_block 30) [1, 128, 1] = Inl ValueError"
    by (simp add: afr_block_def ResBasicBlock_forward_def conv_out_def)
  moreover obtain enc where "SignalSegment2Vec_init 30 = Inr enc" "s2v_AFR enc = [afr_block 30]"
    unfolding SignalSegment2Vec_init_eq by (simp del: One_nat_def)
  ultimately show ?thesis by blast
qed

subsection \<open>Tensor values: zero convolutions and the order of the residual block\<close>

lemma map_res_map: "(\<And>a. a \<in> set xs \<Longrightarrow> f a = Inr (g a)) \<Longrightarrow> map_res f xs = Inr (map g xs)"
  by (induction xs) simp_all

lemma map_res_map_map:
  "(\<And>a. a \<in> set xs \<Longrightarrow> f (h a) = Inr (g a)) \<Longrightarrow> map_res f (map h xs) = Inr (map g xs)"
  by (induction xs) simp_all

lemma expand_as1_single: "expand_as1 [s] xc = Inr (replicate (length xc) s)"
  by (cases "length xc = 1") (auto simp: expand_as1_def expand_list_def)

lemma expand_as2_column:
  "length yb = length xb \<Longrightarrow>
   expand_as2 (map (\<lambda>s. [s]) yb) xb = Inr (map2 (\<lambda>s xc. replicate (length xc) s) yb xb)"
proof -
  assume l: "length yb = length xb"
  have "map_res (\<lambda>(yr, xr). expand_as1 yr xr) (zip (map (\<lambda>s. [s]) yb) xb)
        = Inr (map2 (\<lambda>s xc. replicate (length xc) s) yb xb)"
    using l by (induction yb xb rule: list_induct2) (simp_all add: expand_as1_single)
  then show ?thesis using l by (simp add: expand_as2_def expand_list_def)
qed

lemma expand_as3_gate:
  assumes "list_all2 (\<lambda>yb xb. length yb = length xb) y x"
  shows "expand_as3 (map (map (\<lambda>s. [s])) y) x
         = Inr (map2 (\<lambda>yb xb. map2 (\<lambda>s xc. replicate (length xc) s) yb xb) y x)"
proof -
  have "map_res (\<lambda>(yr, xr). expand_as2 yr xr) (zip (map (map (\<lambda>s. [s])) y) x)
        = Inr (map2 (\<lambda>yb xb. map2 (\<lambda>s xc. replicate (length xc) s) yb xb) y x)"
    using assms by (induction y x rule: list_all2_induct) (simp_all add: expand_as2_column)
  moreover have "length y = length x" using assms by (rule list_all2_lengthD)
  ultimately show ?thesis by (simp add: expand_as3_def expand_list_def)
qed

lemma map2_mult_replicate: "map2 (*) xc (replicate (length xc) s) = map (\<lambda>v. v * s) (xc::real list)"
  by (induction xc) simp_all

lemma mul3_gate:
  assumes "list_all2 (\<lambda>yb xb. length yb = length xb) y x"
  shows "mul3 x (map2 (\<lambda>yb xb. map2 (\<lambda>s xc. replicate (length xc) s) yb xb) y x)
         = map2 (\<lambda>xb yb. map2 (\<lambda>xc s. map (\<lambda>v. v * s) xc) xb yb) x y"
  using assms
proof (induction y x rule: list_all2_induct)
  case Nil
  then show ?case by (simp add: mul3_def)
next
  case (Cons yb y xb x)
  have "map2 (map2 (*)) xb (map2 (\<lambda>s xc. replicate (length xc) s) yb xb)
        = map2 (\<lambda>xc s. map (\<lambda>v. v * s) xc) xb yb"
    using Cons(1) by (induction yb xb rule: list_induct2) (simp_all add: map2_mult_replicate)
  with Cons show ?case by (simp add: mul3_def)
qed

lemma dot_zero: "\<forall>v \<in> set u. v = 0 \<Longrightarrow> dot u w = 0"
proof (induction u arbitrary: w)
  case Nil
  then show ?case by (simp add: dot_def)
next
  case (Cons a u)
  then show ?case by (cases w) (auto simp: dot_def)
qed

lemma sum_list_map2_zero:
  "(\<And>a b. a \<in> set xs \<Longrightarrow> f a b = (0::real)) \<Longrightarrow> sum_list (map2 f xs ys) = 0"
proof (induction xs arbitrary: ys)
  case Nil
  then show ?case by simp
next
  case (Cons a xs)
  then show ?case by (cases ys) auto
qed

lemma conv1d_at_zero:
  assumes "\<forall>wc \<in> set wo. \<forall>v \<in> set wc. v = 0"
  shows "conv1d_at k wo xb pos = 0"
  unfolding conv1d_at_def by (rule sum_list_map2_zero) (use assms in \<open>auto simp: dot_zero\<close>)

lemma conv2d_at_zero:
  assumes "\<forall>wc \<in> set wo. \<forall>wr \<in> set wc. \<forall>v \<in> set wr. v = 0"
  shows "conv2d_at k wo xb i j = 0"
  unfolding conv2d_at_def
proof (rule sum_list_map2_zero)
  fix wc xc assume "wc \<in> set wo"
  with assms have "\<forall>wr \<in> set wc. \<forall>v \<in> set wr. v = 0" by auto
  then show "sum_list (map2 (\<lambda>wr xr. dot wr (window j k xr)) wc (window i k xc)) = 0"
    by (intro sum_list_map2_zero) (auto simp: dot_zero)
qed

lemma map_const_upt: "map (\<lambda>i. c) [0..<n] = replicate n c"
  by (simp add: map_replicate_const)

lemma map_const_on:
  "(\<And>a. a \<in> set xs \<Longrightarrow> f a = c) \<Longrightarrow> map f xs = replicate (length xs) c"
  by (induction xs) simp_all

lemma conv1d_single_zero:
  assumes wf: "wf_conv1d m" and z: "zero_conv1d m"
    and x: "is_tensor2 (cv_in m) l xb" and c: "0 < cv_in m"
    and o: "conv_out l (cv_kernel m) (cv_stride m) (cv_padding m) = Inr l'"
  shows "conv1d_single m xb = Inr (replicate (cv_out m) (replicate l' 0))"
proof -
  from x c obtain a as where xb: "xb = a # as" "length a = l" "length xb = cv_in m"
    by (cases xb) (auto simp: is_tensor2_def)
  have lw: "length (cv_weight m) = cv_out m" using wf by (simp add: wf_conv1d_def is_tensor3_def)
  have lb: "length (bias_list (cv_out m) (cv_bias m)) = cv_out m"
    using wf by (auto simp: wf_conv1d_def bias_list_def split: option.splits)
  have zb: "\<forall>v \<in> set (bias_list (cv_out m) (cv_bias m)). v = 0"
    using z by (auto simp: zero_conv1d_def bias_list_def split: option.splits)
  have "map2 (\<lambda>wo bo. map (\<lambda>i. bo + conv1d_at (cv_kernel m) wo (map (pad1 (cv_padding m)) xb)
                                       (i * cv_stride m)) [0..<l'])
               (cv_weight m) (bias_list (cv_out m) (cv_bias m))
        = replicate (length (zip (cv_weight m) (bias_list (cv_out m) (cv_bias m)))) (replicate l' 0)"
  proof (rule map_const_on)
    fix p assume p: "p \<in> set (zip (cv_weight m) (bias_list (cv_out m) (cv_bias m)))"
    obtain wo bo where pq: "p = (wo, bo)" by (cases p)
    with p have "wo \<in> set (cv_weight m)" "bo \<in> set (bias_list (cv_out m) (cv_bias m))"
      by (auto dest: set_zip_leftD set_zip_rightD)
    with z zb have "\<forall>wc \<in> set wo. \<forall>v \<in> set wc. v = 0" "bo = 0"
      by (auto simp: zero_conv1d_def)
    then show "(case p of (wo, bo) \<Rightarrow>
              map (\<lambda>i. bo + conv1d_at (cv_kernel m) wo (map (pad1 (cv_padding m)) xb)
                                       (i * cv_stride m)) [0..<l']) = replicate l' 0"
      by (simp add: pq conv1d_at_zero map_const_upt)
  qed
  then show ?thesis using xb o lw lb by (simp add: conv1d_single_def)
qed

lemma conv1d_forward_zero:
  assumes wf: "wf_conv1d m" and z: "zero_conv1d m"
    and x: "is_tensor3 b (cv_in m) l x" and c: "0 < cv_in m"
    and o: "conv_out l (cv_kernel m) (cv_stride m) (cv_padding m) = Inr l'"
  shows "conv1d_forward m x = Inr (zeros3 b (cv_out m) l')"
proof -
  have "map_res (conv1d_single m) x = Inr (map (\<lambda>xb. replicate (cv_out m) (replicate l' 0)) x)"
    by (rule map_res_map) (use x in \<open>auto simp: is_tensor3_def intro: conv1d_single_zero[OF wf z _ c o]\<close>)
  moreover have "length x = b" using x by (simp add: is_tensor3_def)
  ultimately show ?thesis by (simp add: conv1d_forward_def zeros3_def map_replicate_const)
qed

lemma is_tensor3_zeros [simp]: "is_tensor3 b c l (zeros3 b c l)"
  by (simp add: is_tensor3_def is_tensor2_def zeros3_def)


lemma sum_list_zero: "\<forall>v \<in> set vs. v = (0::real) \<Longrightarrow> sum_list vs = 0"
  by (induction vs) simp_all

lemma bn_channel_zero:
  assumes "bn_training m" "\<forall>v \<in> set vals. v = 0"
  shows "bn_channel m vals c 0 = bn_bias m ! c"
  using assms by (simp add: bn_channel_def mean_def sum_list_zero)

lemma values_per_channel3_tensor:
  assumes "is_tensor3 b c l x" "0 < c"
  shows "values_per_channel3 x = b * l"
proof -
  have "map (\<lambda>xb. case xb of [] \<Rightarrow> 0 | xc # _ \<Rightarrow> length xc) x = replicate (length x) l"
  proof (rule map_const_on)
    fix xb assume "xb \<in> set x"
    with assms have "is_tensor2 c l xb" by (simp add: is_tensor3_def)
    with assms(2) show "(case xb of [] \<Rightarrow> 0 | xc # _ \<Rightarrow> length xc) = l"
      by (cases xb) (auto simp: is_tensor2_def)
  qed
  then show ?thesis using assms(1)
    by (simp add: values_per_channel3_def is_tensor3_def sum_list_replicate)
qed

lemma batchnorm1d_forward_shape:
  assumes x: "is_tensor3 b c l x" and f: "bn_features m = c" and c: "0 < c"
    and t: "bn_training m \<longrightarrow> b * l \<noteq> 1"
  shows "\<exists>y. batchnorm1d_forward m x = Inr y \<and> is_tensor3 b c l y"
proof -
  have v: "\<not> (bn_training m \<and> values_per_channel3 x = 1)"
    using t values_per_channel3_tensor[OF x c] by simp
  have ch: "\<not> (\<exists>xb \<in> set x. length xb \<noteq> bn_features m)"
    using x f by (auto simp: is_tensor3_def is_tensor2_def)
  have "is_tensor3 b c l (map (\<lambda>xb.
                  map2 (\<lambda>c xc. map (bn_channel m (channel_values3 x c) c) xc)
                    [0..<bn_features m] xb) x)"
    using x f by (auto simp: is_tensor3_def is_tensor2_def dest!: set_zip_rightD)
  then show ?thesis using v ch by (simp add: batchnorm1d_forward_def)
qed

lemma channel_values3_zeros:
  "i < c \<Longrightarrow> \<forall>v \<in> set (channel_values3 (zeros3 b c l) i). v = 0"
  by (auto simp: channel_values3_def zeros3_def)

lemma batchnorm1d_forward_zeros:
  assumes t: "bn_training m" and z: "zero_bias m" and w: "wf_batchnorm m"
    and f: "bn_features m = c" and c: "0 < c" and n: "b * l \<noteq> 1"
  shows "batchnorm1d_forward m (zeros3 b c l) = Inr (zeros3 b c l)"
proof -
  have v: "values_per_channel3 (zeros3 b c l) = b * l"
    by (rule values_per_channel3_tensor[OF is_tensor3_zeros c])
  have ch: "\<not> (\<exists>xb \<in> set (zeros3 b c l). length xb \<noteq> bn_features m)"
    using f by (auto simp: zeros3_def)
  have bz: "bn_bias m ! i = 0" if "i < c" for i
    using that z w f by (auto simp: zero_bias_def wf_batchnorm_def)
  have row: "map2 (\<lambda>i xc. map (bn_channel m (channel_values3 (zeros3 b c l) i) i) xc)
               [0..<c] (replicate c (replicate l 0))
             = replicate c (replicate l 0)"
  proof -
    have "map2 (\<lambda>i xc. map (bn_channel m (channel_values3 (zeros3 b c l) i) i) xc)
               [0..<c] (replicate c (replicate l 0))
          = replicate (length (zip [0..<c] (replicate c (replicate l (0::real))))) (replicate l 0)"
    proof (rule map_const_on)
      fix p assume p: "p \<in> set (zip [0..<c] (replicate c (replicate l (0::real))))"
      obtain i xc where pq: "p = (i, xc)" by (cases p)
      with p have i: "i < c" and xc: "xc = replicate l 0"
        by (auto dest: set_zip_leftD set_zip_rightD)
      have "bn_channel m (channel_values3 (zeros3 b c l) i) i 0 = 0"
        using bn_channel_zero[OF t channel_values3_zeros[OF i]] bz[OF i] by simp
      then show "(case p of (i, xc) \<Rightarrow>
                    map (bn_channel m (channel_values3 (zeros3 b c l) i) i) xc) = replicate l 0"
        by (simp add: pq xc)
    qed
    then show ?thesis by simp
  qed
  have "map (\<lambda>xb. map2 (\<lambda>i xc. map (bn_channel m (channel_values3 (zeros3 b c l) i) i) xc)
                    [0..<bn_features m] xb) (zeros3 b c l) = zeros3 b c l"
    unfolding f using row by (simp add: zeros3_def)
  then show ?thesis using v ch n by (simp add: batchnorm1d_forward_def)
qed

lemma is_tensor3_map3: "is_tensor3 b c l x \<Longrightarrow> is_tensor3 b c l (map3 f x)"
  by (auto simp: is_tensor3_def is_tensor2_def map3_def)

lemma ResLayerV_forward_eq:
  assumes wf: "wf_linear (rlv_fc1 m)" "wf_linear (rlv_fc2 m)"
    and d: "ln_in (rlv_fc1 m) = c" "ln_in (rlv_fc2 m) = ln_out (rlv_fc1 m)" "ln_out (rlv_fc2 m) = c"
    and x: "is_tensor3 b c l x" and l: "0 < l"
  shows "\<exists>y. length y = b \<and> (\<forall>yb \<in> set y. length yb = c) \<and> ResLayerV_forward sg gelu m x
           = Inr (map2 (\<lambda>xb yb. map2 (\<lambda>xc s. map (\<lambda>v. v * s) xc) xb yb) x y)"
proof -
  define G where "G = (\<lambda>xb. map sg (map (\<lambda>row. dot row (map gelu (map (\<lambda>row. dot row (map mean xb))
        (ln_weight (rlv_fc1 m))))) (ln_weight (rlv_fc2 m))))"
  have lw: "length (ln_weight (rlv_fc1 m)) = ln_out (rlv_fc1 m)" "length (ln_weight (rlv_fc2 m)) = c"
    using wf d by (simp_all add: wf_linear_def is_tensor2_def)
  have xb: "length xb = c" "\<forall>xc \<in> set xb. xc \<noteq> []" if "xb \<in> set x" for xb
    using x that l by (auto simp: is_tensor3_def is_tensor2_def)
  have p: "avg_pool1d x = Inr (map (map mean) x)"
    unfolding avg_pool1d_def by (rule map_res_map) (use xb in auto)
  have f: "ResLayerV_fc sg gelu m (map (map mean) x) = Inr (map G x)"
    unfolding ResLayerV_fc_def G_def
    by (rule map_res_map_map) (use xb d lw in \<open>auto simp: linear_forward_def\<close>)
  have len: "list_all2 (\<lambda>yb xb. length yb = length xb) (map G x) x"
    using xb lw by (auto simp: list_all2_map1 G_def intro!: list_all2_same[THEN iffD2])
  have ml: "map length (map G x) = map length x"
    using xb lw by (auto simp: G_def)
  have v: "view_b_c_1 (map G x) x = Inr (map (map (\<lambda>s. [s])) (map G x))"
    using ml by (simp add: view_b_c_1_def)
  have "ResLayerV_forward sg gelu m x
         = Inr (map2 (\<lambda>xb yb. map2 (\<lambda>xc s. map (\<lambda>v. v * s) xc) xb yb) x (map G x))"
    unfolding ResLayerV_forward_def p bind_res_Inr f v expand_as3_gate[OF len] mul3_gate[OF len] ..
  moreover have "length (map G x) = b" using x by (simp add: is_tensor3_def)
  moreover have "\<forall>yb \<in> set (map G x). length yb = c" using lw by (auto simp: G_def)
  ultimately show ?thesis by (intro exI[of _ "map G x"] conjI)
qed

lemma scale_zero_rows: "map2 (\<lambda>xc s. map (\<lambda>v. v * s) xc) (replicate c (replicate l (0::real))) yb
    = replicate (min c (length yb)) (replicate l 0)"
proof -
  have "map2 (\<lambda>xc s. map (\<lambda>v. v * s) xc) (replicate c (replicate l (0::real))) yb
        = replicate (length (zip (replicate c (replicate l (0::real))) yb)) (replicate l 0)"
    by (rule map_const_on) (auto dest!: set_zip_leftD)
  then show ?thesis by simp
qed

lemma ResLayerV_forward_zeros:
  assumes wf: "wf_linear (rlv_fc1 m)" "wf_linear (rlv_fc2 m)"
    and d: "ln_in (rlv_fc1 m) = c" "ln_in (rlv_fc2 m) = ln_out (rlv_fc1 m)" "ln_out (rlv_fc2 m) = c"
    and l: "0 < l"
  shows "ResLayerV_forward sg gelu m (zeros3 b c l) = Inr (zeros3 b c l)"
proof -
  from ResLayerV_forward_eq[OF wf d is_tensor3_zeros l]
  obtain y where ly: "length y = b" and lc: "\<forall>yb \<in> set y. length yb = c"
    and y: "ResLayerV_forward sg gelu m (zeros3 b c l)
           = Inr (map2 (\<lambda>xb yb. map2 (\<lambda>xc s. map (\<lambda>v. v * s) xc) xb yb) (zeros3 b c l) y)"
    by blast
  have "map2 (\<lambda>xb yb. map2 (\<lambda>xc s. map (\<lambda>v. v * s) xc) xb yb) (zeros3 b c l) y
        = replicate (length (zip (zeros3 b c l) y)) (replicate c (replicate l 0))"
  proof (rule map_const_on)
    fix p assume p: "p \<in> set (zip (zeros3 b c l) y)"
    obtain xb yb where pq: "p = (xb, yb)" by (cases p)
    with p have "xb = replicate c (replicate l 0)" "length yb = c"
      using lc by (auto simp: zeros3_def dest: set_zip_leftD set_zip_rightD)
    then show "(case p of (xb, yb) \<Rightarrow> map2 (\<lambda>xc s. map (\<lambda>v. v * s) xc) xb yb)
               = replicate c (replicate l 0)"
      by (simp add: pq scale_zero_rows)
  qed
  then show ?thesis using y ly by (simp add: zeros3_def)
qed

lemma expand_as2_same:
  assumes "is_tensor2 c l r" "is_tensor2 c l out"
  shows "expand_as2 r out = Inr r"
proof -
  have l: "length r = length out" using assms by (simp add: is_tensor2_def)
  have e: "\<forall>p \<in> set (zip r out). length (fst p) = length (snd p)"
    using assms by (auto simp: is_tensor2_def elim!: in_set_zipE)
  have "map_res (\<lambda>(yr, xr). expand_as1 yr xr) (zip r out) = Inr (map fst (zip r out))"
    by (rule map_res_map) (use e in \<open>auto simp: expand_as1_def expand_list_def\<close>)
  then show ?thesis using l by (simp add: expand_as2_def expand_list_def)
qed

lemma expand_as3_same:
  assumes "is_tensor3 b c l r" "is_tensor3 b c l out"
  shows "expand_as3 r out = Inr r"
proof -
  have l: "length r = length out" using assms by (simp add: is_tensor3_def)
  have "map_res (\<lambda>(yr, xr). expand_as2 yr xr) (zip r out) = Inr (map fst (zip r out))"
  proof (rule map_res_map)
    fix p assume p: "p \<in> set (zip r out)"
    obtain yr xr where pq: "p = (yr, xr)" by (cases p)
    with p have "is_tensor2 c l yr" "is_tensor2 c l xr"
      using assms by (auto simp: is_tensor3_def dest: set_zip_leftD set_zip_rightD)
    then show "(case p of (yr, xr) \<Rightarrow> expand_as2 yr xr) = Inr (fst p)"
      by (simp add: pq expand_as2_same)
  qed
  then show ?thesis using l by (simp add: expand_as3_def expand_list_def)
qed

lemma add_zero_row: "length xc = l \<Longrightarrow> map2 (+) (replicate l (0::real)) xc = xc"
  by (induction xc arbitrary: l) auto

lemma add_zero_rows:
  "is_tensor2 c l xb \<Longrightarrow> map2 (map2 (+)) (replicate c (replicate l (0::real))) xb = xb"
proof (induction xb arbitrary: c)
  case Nil
  then show ?case by simp
next
  case (Cons a xb)
  then obtain c' where c: "c = Suc c'" by (cases c) (auto simp: is_tensor2_def)
  with Cons show ?case by (simp add: is_tensor2_def add_zero_row)
qed

lemma add_zero_tensor3:
  "is_tensor3 b c l x \<Longrightarrow> map2 (map2 (map2 (+))) (zeros3 b c l) x = x"
proof (induction x arbitrary: b)
  case Nil
  then show ?case by (simp add: zeros3_def)
next
  case (Cons a x)
  then obtain b' where b: "b = Suc b'" by (cases b) (auto simp: is_tensor3_def)
  with Cons.prems have "is_tensor3 b' c l x" "is_tensor2 c l a" by (auto simp: is_tensor3_def)
  with Cons.IH[of b'] show ?case by (simp add: b zeros3_def add_zero_rows)
qed

lemma iadd3_zeros: "is_tensor3 b c l x \<Longrightarrow> iadd3 (zeros3 b c l) x = Inr x"
  by (simp add: iadd3_def expand_as3_same[OF _ is_tensor3_zeros] add_zero_tensor3)

lemma conv_out_same_1: "0 < l \<Longrightarrow> conv_out l (Suc 0) (Suc 0) 0 = Inr l"
  by (cases l) (simp_all add: conv_out_def)

lemma ResBasicBlockV_fields:
  assumes "ResBasicBlock_init c c 1 None r = Inr (ResBasicBlockV_arch m)"
  shows "cv_in (rbv_conv1 m) = c" "cv_out (rbv_conv1 m) = c" "cv_kernel (rbv_conv1 m) = 1"
    "cv_stride (rbv_conv1 m) = 1" "cv_padding (rbv_conv1 m) = 0"
    "cv_in (rbv_conv2 m) = c" "cv_out (rbv_conv2 m) = c" "cv_kernel (rbv_conv2 m) = 1"
    "cv_stride (rbv_conv2 m) = 1" "cv_padding (rbv_conv2 m) = 0"
    "bn_features (rbv_bn1 m) = c" "bn_training (rbv_bn1 m)"
    "bn_features (rbv_bn2 m) = c" "bn_training (rbv_bn2 m)"
    "ln_in (rlv_fc1 (rbv_reslayer m)) = c"
    "ln_in (rlv_fc2 (rbv_reslayer m)) = ln_out (rlv_fc1 (rbv_reslayer m))"
    "ln_out (rlv_fc2 (rbv_reslayer m)) = c"
    "rbv_downsample m = None"
  using assms
  by (auto simp: ResBasicBlock_init_def ResLayer_init_def ResBasicBlockV_arch_def
      ResLayerV_arch_def conv1d_arch_def split: if_splits)

lemma ResBasicBlockV_zero_forward:
  assumes a: "ResBasicBlock_init c c 1 None r = Inr (ResBasicBlockV_arch m)"
    and wf: "wf_ResBasicBlockV m"
    and z1: "zero_conv1d (rbv_conv1 m)" and z2: "zero_conv1d (rbv_conv2 m)"
    and zb: "zero_bias (rbv_bn2 m)"
    and x: "is_tensor3 b c l x" and c: "0 < c" and l: "0 < l" and n: "2 \<le> b * l"
  shows "ResBasicBlockV_forward sg gelu m x = Inr (map3 gelu x)"
proof -
  note f = ResBasicBlockV_fields[OF a]
  have n1: "b * l \<noteq> 1" using n by linarith
  have w: "wf_conv1d (rbv_conv1 m)" "wf_batchnorm (rbv_bn1 m)" "wf_conv1d (rbv_conv2 m)"
    "wf_batchnorm (rbv_bn2 m)" "wf_linear (rlv_fc1 (rbv_reslayer m))"
    "wf_linear (rlv_fc2 (rbv_reslayer m))"
    using wf by (simp_all add: wf_ResBasicBlockV_def)
  have o1: "conv_out l (cv_kernel (rbv_conv1 m)) (cv_stride (rbv_conv1 m))
              (cv_padding (rbv_conv1 m)) = Inr l"
    using conv_out_same_1[OF l] by (simp add: f)
  have o2: "conv_out l (cv_kernel (rbv_conv2 m)) (cv_stride (rbv_conv2 m))
              (cv_padding (rbv_conv2 m)) = Inr l"
    using conv_out_same_1[OF l] by (simp add: f)
  have x1: "is_tensor3 b (cv_in (rbv_conv1 m)) l x" using x by (simp add: f)
  have c1: "0 < cv_in (rbv_conv1 m)" "0 < cv_in (rbv_conv2 m)" using c by (simp_all add: f)
  have s1: "conv1d_forward (rbv_conv1 m) x = Inr (zeros3 b c l)"
    using conv1d_forward_zero[OF w(1) z1 x1 c1(1) o1] by (simp add: f)
  obtain y where s2: "batchnorm1d_forward (rbv_bn1 m) (zeros3 b c l) = Inr y"
    and y: "is_tensor3 b c l y"
    using batchnorm1d_forward_shape[OF is_tensor3_zeros f(11) c, of b l] n1 by blast
  have y': "is_tensor3 b (cv_in (rbv_conv2 m)) l (map3 gelu y)"
    using is_tensor3_map3[OF y] by (simp add: f)
  have s3: "conv1d_forward (rbv_conv2 m) (map3 gelu y) = Inr (zeros3 b c l)"
    using conv1d_forward_zero[OF w(3) z2 y' c1(2) o2] by (simp add: f)
  have s4: "batchnorm1d_forward (rbv_bn2 m) (zeros3 b c l) = Inr (zeros3 b c l)"
    by (rule batchnorm1d_forward_zeros[OF f(14) zb w(4) f(13) c n1])
  have s5: "ResLayerV_forward sg gelu (rbv_reslayer m) (zeros3 b c l) = Inr (zeros3 b c l)"
    by (rule ResLayerV_forward_zeros[OF w(5) w(6) f(15) f(16) f(17) l])
  show ?thesis
    unfolding ResBasicBlockV_forward_def
    by (simp add: s1 s2 s3 s4 s5 f(18) iadd3_zeros[OF x])
qed

lemma is_tensor4_zeros [simp]: "is_tensor4 b c h w (zeros4 b c h w)"
  by (simp add: is_tensor4_def is_tensor3_def is_tensor2_def zeros4_def)

lemma is_tensor4_map4: "is_tensor4 b c h w x \<Longrightarrow> is_tensor4 b c h w (map4 f x)"
  by (auto simp: is_tensor4_def is_tensor3_def is_tensor2_def map4_def)

lemma conv2d_single_zero:
  assumes wf: "wf_conv2d m" and z: "zero_conv2d m"
    and x: "is_tensor3 (cw_in m) h w xb" and c: "0 < cw_in m" and h: "0 < h"
    and oh: "conv_out h (cw_kernel m) (cw_stride m) (cw_padding m) = Inr h'"
    and ow: "conv_out w (cw_kernel m) (cw_stride m) (cw_padding m) = Inr w'"
  shows "conv2d_single m xb = Inr (replicate (cw_out m) (replicate h' (replicate w' 0)))"
proof -
  from x c obtain a as where xb: "xb = a # as" "is_tensor2 h w a" "length xb = cw_in m"
    by (cases xb) (auto simp: is_tensor3_def)
  from xb(2) h obtain a' as' where a: "a = a' # as'" "length a = h" "length a' = w"
    by (cases a) (auto simp: is_tensor2_def)
  have lw: "length (cw_weight m) = cw_out m" using wf by (simp add: wf_conv2d_def is_tensor4_def)
  have "map (\<lambda>wo. map (\<lambda>i. map (\<lambda>j. conv2d_at (cw_kernel m) wo (map (pad2 (cw_padding m)) xb)
                                    (i * cw_stride m) (j * cw_stride m)) [0..<w']) [0..<h'])
               (cw_weight m)
        = replicate (length (cw_weight m)) (replicate h' (replicate w' 0))"
  proof (rule map_const_on)
    fix wo assume "wo \<in> set (cw_weight m)"
    with z have "\<forall>wc \<in> set wo. \<forall>wr \<in> set wc. \<forall>v \<in> set wr. v = 0"
      by (auto simp: zero_conv2d_def)
    then show "map (\<lambda>i. map (\<lambda>j. conv2d_at (cw_kernel m) wo (map (pad2 (cw_padding m)) xb)
                                    (i * cw_stride m) (j * cw_stride m)) [0..<w']) [0..<h']
               = replicate h' (replicate w' 0)"
      by (simp add: conv2d_at_zero map_const_upt)
  qed
  then show ?thesis using xb a oh ow lw by (simp add: conv2d_single_def)
qed

lemma conv2d_forward_zero:
  assumes wf: "wf_conv2d m" and z: "zero_conv2d m"
    and x: "is_tensor4 b (cw_in m) h w x" and c: "0 < cw_in m" and h: "0 < h"
    and oh: "conv_out h (cw_kernel m) (cw_stride m) (cw_padding m) = Inr h'"
    and ow: "conv_out w (cw_kernel m) (cw_stride m) (cw_padding m) = Inr w'"
  shows "conv2d_forward m x = Inr (zeros4 b (cw_out m) h' w')"
proof -
  have "map_res (conv2d_single m) x
        = Inr (map (\<lambda>xb. replicate (cw_out m) (replicate h' (replicate w' 0))) x)"
    by (rule map_res_map)
      (use x in \<open>auto simp: is_tensor4_def intro: conv2d_single_zero[OF wf z _ c h oh ow]\<close>)
  moreover have "length x = b" using x by (simp add: is_tensor4_def)
  ultimately show ?thesis by (simp add: conv2d_forward_def zeros4_def map_replicate_const)
qed

lemma length_concat_tensor2: "is_tensor2 h w xc \<Longrightarrow> length (concat xc) = h * w"
proof (induction xc arbitrary: h)
  case Nil
  then show ?case by (simp add: is_tensor2_def)
next
  case (Cons a xc)
  then obtain h' where h: "h = Suc h'" by (cases h) (auto simp: is_tensor2_def)
  with Cons.prems have "is_tensor2 h' w xc" "length a = w" by (auto simp: is_tensor2_def)
  with Cons.IH[of h'] show ?case by (simp add: h)
qed

lemma values_per_channel4_tensor:
  assumes "is_tensor4 b c h w x" "0 < c"
  shows "values_per_channel4 x = b * (h * w)"
proof -
  have "map (\<lambda>xb. case xb of [] \<Rightarrow> 0 | xc # _ \<Rightarrow> length (concat xc)) x
        = replicate (length x) (h * w)"
  proof (rule map_const_on)
    fix xb assume "xb \<in> set x"
    with assms have "is_tensor3 c h w xb" by (simp add: is_tensor4_def)
    with assms(2) show "(case xb of [] \<Rightarrow> 0 | xc # _ \<Rightarrow> length (concat xc)) = h * w"
      by (cases xb) (auto simp: is_tensor3_def length_concat_tensor2)
  qed
  then show ?thesis using assms(1)
    by (simp add: values_per_channel4_def is_tensor4_def sum_list_replicate)
qed

lemma batchnorm2d_forward_shape:
  assumes x: "is_tensor4 b c h w x" and f: "bn_features m = c" and c: "0 < c"
    and t: "bn_training m \<longrightarrow> b * (h * w) \<noteq> 1"
  shows "\<exists>y. batchnorm2d_forward m x = Inr y \<and> is_tensor4 b c h w y"
proof -
  have v: "\<not> (bn_training m \<and> values_per_channel4 x = 1)"
    using t values_per_channel4_tensor[OF x c] by simp
  have ch: "\<not> (\<exists>xb \<in> set x. length xb \<noteq> bn_features m)"
    using x f by (auto simp: is_tensor4_def is_tensor3_def)
  have "is_tensor4 b c h w (map (\<lambda>xb.
                  map2 (\<lambda>c xc. map (map (bn_channel m (channel_values4 x c) c)) xc)
                    [0..<bn_features m] xb) x)"
    using x f by (auto simp: is_tensor4_def is_tensor3_def is_tensor2_def dest!: set_zip_rightD)
  then show ?thesis using v ch by (simp add: batchnorm2d_forward_def)
qed

lemma channel_values4_zeros:
  "i < c \<Longrightarrow> \<forall>v \<in> set (channel_values4 (zeros4 b c h w) i). v = 0"
  by (auto simp: channel_values4_def zeros4_def)

lemma batchnorm2d_forward_zeros:
  assumes t: "bn_training m" and z: "zero_bias m" and wf: "wf_batchnorm m"
    and f: "bn_features m = c" and c: "0 < c" and n: "b * (h * w) \<noteq> 1"
  shows "batchnorm2d_forward m (zeros4 b c h w) = Inr (zeros4 b c h w)"
proof -
  have v: "values_per_channel4 (zeros4 b c h w) = b * (h * w)"
    by (rule values_per_channel4_tensor[OF is_tensor4_zeros c])
  have ch: "\<not> (\<exists>xb \<in> set (zeros4 b c h w). length xb \<noteq> bn_features m)"
    using f by (auto simp: zeros4_def)
  have bz: "bn_bias m ! i = 0" if "i < c" for i
    using that z wf f by (auto simp: zero_bias_def wf_batchnorm_def)
  have row: "map2 (\<lambda>i xc. map (map (bn_channel m (channel_values4 (zeros4 b c h w) i) i)) xc)
               [0..<c] (replicate c (replicate h (replicate w 0)))
             = replicate c (replicate h (replicate w 0))"
  proof -
    have "map2 (\<lambda>i xc. map (map (bn_channel m (channel_values4 (zeros4 b c h w) i) i)) xc)
               [0..<c] (replicate c (replicate h (replicate w 0)))
          = replicate (length (zip [0..<c] (replicate c (replicate h (replicate w (0::real))))))
              (replicate h (replicate w 0))"
    proof (rule map_const_on)
      fix p assume p: "p \<in> set (zip [0..<c] (replicate c (replicate h (replicate w (0::real)))))"
      obtain i xc where pq: "p = (i, xc)" by (cases p)
      with p have i: "i < c" and xc: "xc = replicate h (replicate w 0)"
        by (auto dest: set_zip_leftD set_zip_rightD)
      have "bn_channel m (channel_values4 (zeros4 b c h w) i) i 0 = 0"
        using bn_channel_zero[OF t channel_values4_zeros[OF i]] bz[OF i] by simp
      then show "(case p of (i, xc) \<Rightarrow>
                    map (map (bn_channel m (channel_values4 (zeros4 b c h w) i) i)) xc)
                 = replicate h (replicate w 0)"
        by (simp add: pq xc)
    qed
    then show ?thesis by simp
  qed
  have "map (\<lambda>xb. map2 (\<lambda>i xc. map (map (bn_channel m (channel_values4 (zeros4 b c h w) i) i)) xc)
                    [0..<bn_features m] xb) (zeros4 b c h w) = zeros4 b c h w"
    unfolding f using row by (simp add: zeros4_def)
  then show ?thesis using v ch n by (simp add: batchnorm2d_forward_def)
qed

lemma add1_zeros: "length xc = w \<Longrightarrow> add1 (replicate w 0) xc = Inr xc"
  by (simp add: add1_def pair_up_def add_zero_row flip: map2_map_map)

lemma add_zeros_lift:
  assumes e: "\<And>a. a \<in> set x \<Longrightarrow> f z a = Inr a" and l: "length x = n"
  shows "bind_res (pair_up (replicate n z) x) (map_res (\<lambda>(a, b). f a b)) = Inr x"
proof -
  have "map_res (\<lambda>(a, b). f a b) (zip (replicate n z) x) = Inr (map snd (zip (replicate n z) x))"
    by (rule map_res_map) (use e in \<open>auto elim!: in_set_zipE\<close>)
  then show ?thesis using l by (simp add: pair_up_def map_snd_zip)
qed

lemma add2_zeros: "is_tensor2 h w xc \<Longrightarrow> add2 (replicate h (replicate w 0)) xc = Inr xc"
  unfolding add2_def by (rule add_zeros_lift) (auto simp: is_tensor2_def add1_zeros)

lemma add3_zeros:
  "is_tensor3 c h w xb \<Longrightarrow> add3 (replicate c (replicate h (replicate w 0))) xb = Inr xb"
  unfolding add3_def by (rule add_zeros_lift) (auto simp: is_tensor3_def add2_zeros)

lemma add4_zeros: "is_tensor4 b c h w x \<Longrightarrow> add4 (zeros4 b c h w) x = Inr x"
  unfolding add4_def zeros4_def by (rule add_zeros_lift) (auto simp: is_tensor4_def add3_zeros)

lemma conv_out_same_3: "0 < l \<Longrightarrow> conv_out l 3 (Suc 0) (Suc 0) = Inr l"
  by (simp add: conv_out_def)

lemma BasicBlockV_fields:
  assumes "BasicBlock_init c c 1 None = BasicBlockV_arch m"
  shows "cw_in (bbv_conv1 m) = c" "cw_out (bbv_conv1 m) = c" "cw_kernel (bbv_conv1 m) = 3"
    "cw_stride (bbv_conv1 m) = 1" "cw_padding (bbv_conv1 m) = 1"
    "cw_in (bbv_conv2 m) = c" "cw_out (bbv_conv2 m) = c" "cw_kernel (bbv_conv2 m) = 3"
    "cw_stride (bbv_conv2 m) = 1" "cw_padding (bbv_conv2 m) = 1"
    "bn_features (bbv_bn1 m) = c" "bn_training (bbv_bn1 m)"
    "bn_features (bbv_bn2 m) = c" "bn_training (bbv_bn2 m)"
    "bbv_downsample m = None"
  using assms
  by (auto simp: BasicBlock_init_def BasicBlockV_arch_def conv2d_arch_def)

lemma BasicBlockV_zero_forward:
  assumes a: "BasicBlock_init c c 1 None = BasicBlockV_arch m"
    and wf: "wf_BasicBlockV m"
    and z1: "zero_conv2d (bbv_conv1 m)" and z2: "zero_conv2d (bbv_conv2 m)"
    and zb: "zero_bias (bbv_bn2 m)"
    and x: "is_tensor4 b c h w x" and c: "0 < c" and h: "0 < h" and w: "0 < w"
    and n: "2 \<le> b * (h * w)"
  shows "BasicBlockV_forward m x = Inr (map4 relu x)"
proof -
  note f = BasicBlockV_fields[OF a]
  have n1: "b * (h * w) \<noteq> 1" using n by linarith
  have wfs: "wf_conv2d (bbv_conv1 m)" "wf_batchnorm (bbv_bn1 m)" "wf_conv2d (bbv_conv2 m)"
    "wf_batchnorm (bbv_bn2 m)"
    using wf by (simp_all add: wf_BasicBlockV_def)
  have o1: "conv_out h (cw_kernel (bbv_conv1 m)) (cw_stride (bbv_conv1 m))
              (cw_padding (bbv_conv1 m)) = Inr h"
    "conv_out w (cw_kernel (bbv_conv1 m)) (cw_stride (bbv_conv1 m))
              (cw_padding (bbv_conv1 m)) = Inr w"
    using conv_out_same_3[OF h] conv_out_same_3[OF w] by (simp_all add: f)
  have o2: "conv_out h (cw_kernel (bbv_conv2 m)) (cw_stride (bbv_conv2 m))
              (cw_padding (bbv_conv2 m)) = Inr h"
    "conv_out w (cw_kernel (bbv_conv2 m)) (cw_stride (bbv_conv2 m))
              (cw_padding (bbv_conv2 m)) = Inr w"
    using conv_out_same_3[OF h] conv_out_same_3[OF w] by (simp_all add: f)
  have x1: "is_tensor4 b (cw_in (bbv_conv1 m)) h w x" using x by (simp add: f)
  have c1: "0 < cw_in (bbv_conv1 m)" "0 < cw_in (bbv_conv2 m)" using c by (simp_all add: f)
  have s1: "conv2d_forward (bbv_conv1 m) x = Inr (zeros4 b c h w)"
    using conv2d_forward_zero[OF wfs(1) z1 x1 c1(1) h o1] by (simp add: f)
  obtain y where s2: "batchnorm2d_forward (bbv_bn1 m) (zeros4 b c h w) = Inr y"
    and y: "is_tensor4 b c h w y"
    using batchnorm2d_forward_shape[OF is_tensor4_zeros f(11) c, of b h w] n1 by blast
  have y': "is_tensor4 b (cw_in (bbv_conv2 m)) h w (map4 relu y)"
    using is_tensor4_map4[OF y] by (simp add: f)
  have s3: "conv2d_forward (bbv_conv2 m) (map4 relu y) = Inr (zeros4 b c h w)"
    using conv2d_forward_zero[OF wfs(3) z2 y' c1(2) h o2] by (simp add: f)
  have s4: "batchnorm2d_forward (bbv_bn2 m) (zeros4 b c h w) = Inr (zeros4 b c h w)"
    by (rule batchnorm2d_forward_zeros[OF f(14) zb wfs(4) f(13) c n1])
  show ?thesis
    unfolding BasicBlockV_forward_def
    by (simp add: s1 s2 s3 s4 f(15) add4_zeros[OF x])
qed

lemma example_ResBasicBlockV_arch:
  "ResBasicBlock_init 4 4 1 None 4 = Inr (ResBasicBlockV_arch example_ResBasicBlockV)"
  by (simp add: ResBasicBlock_init_def ResLayer_init_def ResBasicBlockV_arch_def
      ResLayerV_arch_def conv1d_arch_def example_ResBasicBlockV_def example_conv1d_def
      BatchNorm_init_def)

lemma example_ResBasicBlockV_wf: "wf_ResBasicBlockV example_ResBasicBlockV"
  by (simp add: wf_ResBasicBlockV_def wf_conv1d_def wf_batchnorm_def wf_linear_def
      is_tensor3_def is_tensor2_def example_ResBasicBlockV_def example_conv1d_def
      BatchNorm_init_def)

lemma example_conv1d_zero: "zero_conv1d example_conv1d"
  by (simp add: zero_conv1d_def example_conv1d_def)

lemma example_BasicBlockV_arch: "BasicBlock_init 1 1 1 None = BasicBlockV_arch example_BasicBlockV"
  by (simp add: BasicBlock_init_def BasicBlockV_arch_def conv2d_arch_def
      example_BasicBlockV_def example_conv2d_def BatchNorm_init_def)

lemma example_BasicBlockV_wf: "wf_BasicBlockV example_BasicBlockV"
  by (simp add: wf_BasicBlockV_def wf_conv2d_def wf_batchnorm_def
      is_tensor4_def is_tensor3_def is_tensor2_def example_BasicBlockV_def example_conv2d_def
      BatchNorm_init_def)

lemma example_conv2d_zero: "zero_conv2d example_conv2d"
  by (simp add: zero_conv2d_def example_conv2d_def)

lemma batchnorm1d_forward_one_value:
  assumes "bn_training m" "0 < c"
  shows "batchnorm1d_forward m (zeros3 1 c 1) = Inl ValueError"
  using assms values_per_channel3_tensor[OF is_tensor3_zeros, of c 1 1]
  by (simp add: batchnorm1d_forward_def)

lemma batchnorm2d_forward_one_value:
  assumes "bn_training m" "0 < c"
  shows "batchnorm2d_forward m (zeros4 1 c 1 1) = Inl ValueError"
  using assms values_per_channel4_tensor[OF is_tensor4_zeros, of c 1 1 1]
  by (simp add: batchnorm2d_forward_def)

lemma ResBasicBlockV_one_value:
  assumes a: "ResBasicBlock_init c c 1 None r = Inr (ResBasicBlockV_arch m)"
    and wf: "wf_ResBasicBlockV m" and z1: "zero_conv1d (rbv_conv1 m)"
    and x: "is_tensor3 1 c 1 x" and c: "0 < c"
  shows "ResBasicBlockV_forward sg gelu m x = Inl ValueError"
proof -
  note f = ResBasicBlockV_fields[OF a]
  have w: "wf_conv1d (rbv_conv1 m)" using wf by (simp add: wf_ResBasicBlockV_def)
  have o1: "conv_out 1 (cv_kernel (rbv_conv1 m)) (cv_stride (rbv_conv1 m))
              (cv_padding (rbv_conv1 m)) = Inr 1"
    using conv_out_same_1[of 1] by (simp add: f)
  have x1: "is_tensor3 1 (cv_in (rbv_conv1 m)) 1 x" using x by (simp add: f)
  have c1: "0 < cv_in (rbv_conv1 m)" using c by (simp add: f)
  have s1: "conv1d_forward (rbv_conv1 m) x = Inr (zeros3 1 c 1)"
    using conv1d_forward_zero[OF w z1 x1 c1 o1] by (simp add: f)
  show ?thesis
    unfolding ResBasicBlockV_forward_def s1 bind_res_Inr
      batchnorm1d_forward_one_value[OF f(12) c] bind_res_Inl ..
qed

lemma BasicBlockV_one_value:
  assumes a: "BasicBlock_init c c 1 None = BasicBlockV_arch m"
    and wf: "wf_BasicBlockV m" and z1: "zero_conv2d (bbv_conv1 m)"
    and x: "is_tensor4 1 c 1 1 x" and c: "0 < c"
  shows "BasicBlockV_forward m x = Inl ValueError"
proof -
  note f = BasicBlockV_fields[OF a]
  have w: "wf_conv2d (bbv_conv1 m)" using wf by (simp add: wf_BasicBlockV_def)
  have o1: "conv_out 1 (cw_kernel (bbv_conv1 m)) (cw_stride (bbv_conv1 m))
              (cw_padding (bbv_conv1 m)) = Inr 1"
    using conv_out_same_3[of 1] by (simp add: f)
  have x1: "is_tensor4 1 (cw_in (bbv_conv1 m)) 1 1 x" using x by (simp add: f)
  have c1: "0 < cw_in (bbv_conv1 m)" using c by (simp add: f)
  have s1: "conv2d_forward (bbv_conv1 m) x = Inr (zeros4 1 c 1 1)"
    using conv2d_forward_zero[OF w z1 x1 c1 _ o1 o1] by (simp add: f)
  show ?thesis
    unfolding BasicBlockV_forward_def s1 bind_res_Inr
      batchnorm2d_forward_one_value[OF f(12) c] bind_res_Inl ..
qed

lemma zeros4_1_1_1_2: "zeros4 1 1 1 2 = [[[[0, 0]]]]"
  by (simp add: zeros4_def numeral_2_eq_2)

lemma biased_BasicBlockV_forward:
  "BasicBlockV_forward biased_BasicBlockV [[[[0, 0]]]] = Inr [[[[1, 1]]]]"
proof -
  have wf: "wf_conv2d example_conv2d"
    by (simp add: wf_conv2d_def is_tensor4_def is_tensor3_def is_tensor2_def example_conv2d_def)
  have o: "conv_out 1 (cw_kernel example_conv2d) (cw_stride example_conv2d)
             (cw_padding example_conv2d) = Inr 1"
    "conv_out 2 (cw_kernel example_conv2d) (cw_stride example_conv2d)
             (cw_padding example_conv2d) = Inr 2"
    by (simp_all add: example_conv2d_def conv_out_def)
  have c: "0 < cw_in example_conv2d" "cw_in example_conv2d = 1" "cw_out example_conv2d = 1"
    by (simp_all add: example_conv2d_def)
  have t: "is_tensor4 1 (cw_in example_conv2d) 1 2 (zeros4 1 1 1 2)"
    unfolding c by simp
  have s1: "conv2d_forward example_conv2d [[[[0, 0]]]] = Inr [[[[0, 0]]]]"
    using conv2d_forward_zero[OF wf example_conv2d_zero t c(1) _ o]
    unfolding c zeros4_1_1_1_2 by simp
  have s2: "batchnorm2d_forward (BatchNorm_init 1) [[[[0, 0]]]] = Inr [[[[0, 0]]]]"
    using batchnorm2d_forward_zeros[of "BatchNorm_init 1" 1 1 1 2]
    unfolding zeros4_1_1_1_2
    by (simp add: BatchNorm_init_def zero_bias_def wf_batchnorm_def)
  have s3: "batchnorm2d_forward ((BatchNorm_init 1)\<lparr>bn_bias := [1]\<rparr>) [[[[0, 0]]]]
            = Inr [[[[1, 1]]]]"
    by (simp add: batchnorm2d_forward_def values_per_channel4_def BatchNorm_init_def
        bn_channel_def channel_values4_def mean_def)
  have s4: "add4 [[[[1, 1]]]] [[[[0, 0]]]] = Inr [[[[1, 1]]]]"
    by (simp add: add4_def add3_def add2_def add1_def pair_up_def)
  have r: "map4 relu [[[[0, 0]]]] = [[[[0, 0]]]]" "map4 relu [[[[1, 1]]]] = [[[[1, 1]]]]"
    by (simp_all add: map4_def relu_def)
  have m: "bbv_conv1 biased_BasicBlockV = example_conv2d"
    "bbv_bn1 biased_BasicBlockV = BatchNorm_init 1"
    "bbv_conv2 biased_BasicBlockV = example_conv2d"
    "bbv_bn2 biased_BasicBlockV = (BatchNorm_init 1)\<lparr>bn_bias := [1]\<rparr>"
    "bbv_downsample biased_BasicBlockV = None"
    by (simp_all add: biased_BasicBlockV_def example_BasicBlockV_def del: One_nat_def)
  show ?thesis
    unfolding BasicBlockV_forward_def m
    by (simp add: s1 s2 s3 s4 r del: One_nat_def)
qed




lemma more_blocks_members:
  "more_blocks p planes n = Inr bs \<Longrightarrow>
   length bs = n \<and> (\<forall>a \<in> set bs. ResBasicBlock_init p planes 1 None 4 = Inr a)"
proof (induction n arbitrary: bs)
  case 0
  then show ?case by simp
next
  case (Suc n)
  from Suc.prems obtain a where a: "ResBasicBlock_init p planes 1 None 4 = Inr a"
    by (cases "ResBasicBlock_init p planes 1 None 4") simp_all
  with Suc.prems obtain as where as: "more_blocks p planes n = Inr as" "bs = a # as"
    by (cases "more_blocks p planes n") auto
  with Suc.IH[OF as(1)] a show ?case by simp
qed

lemma make_layer_members:
  assumes m: "make_layer inplanes planes blocks stride = Inr (archs, p)"
    and i: "i < length archs"
  shows "ResBasicBlock_init (if i = 0 then inplanes else planes) planes
           (if i = 0 then stride else 1)
           (if i = 0 \<and> (stride \<noteq> 1 \<or> inplanes \<noteq> planes)
            then Some [Conv1d inplanes planes 1 stride 0, BatchNorm1d planes True] else None) 4
         = Inr (archs ! i)"
proof -
  define ds where "ds = (if stride \<noteq> 1 \<or> inplanes \<noteq> planes
             then Some [Conv1d inplanes planes 1 stride 0, BatchNorm1d planes True]
             else None)"
  have m': "bind_res (ResBasicBlock_init inplanes planes stride ds 4) (\<lambda>first.
              bind_res (more_blocks planes planes (blocks - 1)) (\<lambda>rest.
              Inr (first # rest, planes))) = Inr (archs, p)"
    using m unfolding make_layer_def Let_def expansion_def nat_mult_1_right ds_def .
  from m' obtain first where f: "ResBasicBlock_init inplanes planes stride ds 4 = Inr first"
    by (cases "ResBasicBlock_init inplanes planes stride ds 4") simp_all
  from m' obtain rest where r: "more_blocks planes planes (blocks - 1) = Inr rest"
    "archs = first # rest"
    unfolding f bind_res_Inr
    by (cases "more_blocks planes planes (blocks - 1)") auto
  show ?thesis
  proof (cases i)
    case 0
    then show ?thesis using f r by (simp add: ds_def)
  next
    case (Suc j)
    with i r have "rest ! j \<in> set rest" by simp
    with more_blocks_members[OF r(1)] have "ResBasicBlock_init planes planes 1 None 4 = Inr (rest ! j)"
      by blast
    then show ?thesis using Suc r by simp
  qed
qed

lemma ResBasicBlockV_arch_fields:
  assumes "ResBasicBlock_init ip pl s ds r = Inr (ResBasicBlockV_arch m)"
  shows "cv_in (rbv_conv1 m) = ip" "cv_out (rbv_conv1 m) = pl" "rbv_stride m = s"
    "map_option (\<lambda>d. [conv1d_arch (fst d),
                      BatchNorm1d (bn_features (snd d)) (bn_training (snd d))])
       (rbv_downsample m) = ds"
  using assms
  by (auto simp: ResBasicBlock_init_def ResLayer_init_def ResBasicBlockV_arch_def
      conv1d_arch_def split: if_splits)


lemma example_make_layer:
  "make_layer 4 4 1 1 = Inr ([ResBasicBlockV_arch example_ResBasicBlockV], 4)"
  by (simp add: make_layer_def expansion_def ResBasicBlock_init_def ResLayer_init_def
      ResBasicBlockV_arch_def ResLayerV_arch_def conv1d_arch_def
      example_ResBasicBlockV_def example_conv1d_def BatchNorm_init_def)


end
